theory Spec2Isabelle
  imports Main "HOL-Library.DAList"
begin

section \<open>The session-backed shopping cart of cart/cart.py\<close>

text \<open>
  The class \<open>Cart\<close> wraps one dictionary from product ids (strings) to quantities
  (integers). The dictionary object is shared with the session: the session stores a
  reference to it under the key \<open>"cart"\<close>, and the attribute \<open>self.cart\<close> is the same
  reference. The model therefore keeps dictionary objects in a store indexed by
  references, and every method takes the state of the world and returns the new one.
\<close>

subsection \<open>Python values and dictionaries\<close>

datatype py_error = ValueError | TypeError | KeyError

text \<open>
  The values a caller passes as an identifier: an integer (a primary key) or a string.
\<close>

datatype pyval = PInt int | PStr string

text \<open>
  The argument \<open>product\<close> of the methods is looked at in one way only: whether it has an
  attribute \<open>id\<close> (then the attribute is read), or not (then the value itself is used).
\<close>

datatype product_arg =
    HasId pyval  \<comment> \<open>an object exposing the attribute \<open>id\<close>, with the attribute's value\<close>
  | NoId pyval   \<comment> \<open>a bare identifier: \<open>hasattr(product, "id")\<close> is false\<close>

text \<open>
  The argument \<open>quantity\<close> enters the code only through \<open>int(quantity)\<close>, so it is
  modelled by what \<open>int\<close> does with it: it yields an integer (an \<open>int\<close> is returned as it
  is), or it raises (\<open>ValueError\<close> for a string that is no number, \<open>TypeError\<close> for
  \<open>None\<close>).
\<close>

datatype quantity =
    QInt int          \<comment> \<open>a value that \<open>int\<close> turns into this integer\<close>
  | QBad py_error     \<comment> \<open>a value on which \<open>int\<close> raises this exception\<close>

fun py_int :: "quantity \<Rightarrow> py_error + int" where
  "py_int (QInt n) = Inr n"
| "py_int (QBad e) = Inl e"

text \<open>Decimal notation, as \<open>str\<close> writes an integer.\<close>

definition digit_char :: "nat \<Rightarrow> char" where
  "digit_char d = ''0123456789'' ! (d mod 10)"

function str_nat :: "nat \<Rightarrow> string" where
  "str_nat n = (if n < 10 then [digit_char n] else str_nat (n div 10) @ [digit_char (n mod 10)])"
  by pat_completeness auto
termination
  by (relation "measure (\<lambda>n. n)") auto

fun py_str :: "pyval \<Rightarrow> string" where
  "py_str (PInt i) = (if i < 0 then CHR ''-'' # str_nat (nat (- i)) else str_nat (nat i))"
| "py_str (PStr s) = s"

text \<open>
  A Python \<open>dict\<close> with string keys and integer values: an association list with
  distinct keys in insertion order.
\<close>

type_synonym pydict = "(string, int) alist"

definition dict_contains :: "pydict \<Rightarrow> string \<Rightarrow> bool" where
  \<comment> \<open>\<open>k in d\<close>\<close>
  "dict_contains d k = (DAList.lookup d k \<noteq> None)"

definition dict_setitem :: "pydict \<Rightarrow> string \<Rightarrow> int \<Rightarrow> pydict" where
  \<comment> \<open>\<open>d[k] = v\<close>: overwrites in place, or appends a new key\<close>
  "dict_setitem d k v = DAList.update k v d"

definition dict_delitem :: "pydict \<Rightarrow> string \<Rightarrow> py_error + pydict" where
  \<comment> \<open>\<open>del d[k]\<close>: raises \<open>KeyError\<close> when the key is missing\<close>
  "dict_delitem d k = (if dict_contains d k then Inr (DAList.delete k d) else Inl KeyError)"

definition dict_get :: "pydict \<Rightarrow> string \<Rightarrow> int \<Rightarrow> int" where
  \<comment> \<open>\<open>d.get(k, default)\<close>\<close>
  "dict_get d k dflt = (case DAList.lookup d k of None \<Rightarrow> dflt | Some v \<Rightarrow> v)"

definition dict_keys :: "pydict \<Rightarrow> string list" where
  \<comment> \<open>\<open>d.keys()\<close>\<close>
  "dict_keys d = map fst (DAList.impl_of d)"

definition dict_len :: "pydict \<Rightarrow> nat" where
  \<comment> \<open>\<open>len(d)\<close>\<close>
  "dict_len d = length (DAList.impl_of d)"

subsection \<open>The world a cart lives in\<close>

type_synonym ref = nat

text \<open>
  The user of the request and a row of the profile table, with the attributes that the
  class reads and writes: \<open>request.user.is_authenticated\<close>, \<open>request.user.id\<close>, and the
  columns \<open>user_id\<close> and \<open>old_cart\<close> named in \<open>_save\<close>. The table holds a copy of the
  mapping, not a reference to it.
\<close>

record User =
  is_authenticated :: bool
  uid :: int                  \<comment> \<open>\<open>request.user.id\<close>\<close>

record Profile =
  user_id :: int
  old_cart :: pydict

text \<open>
  \<open>heap\<close> holds the dictionary objects, \<open>allocated\<close> counts them (the next object gets
  this reference); \<open>session\<close> and \<open>modified\<close> are \<open>request.session\<close> and its dirty flag;
  \<open>user\<close> is \<open>request.user\<close>; \<open>profiles\<close> are the rows of the table behind
  \<open>Profile.objects\<close>.
\<close>

record world =
  heap :: "ref \<Rightarrow> pydict"
  allocated :: nat
  session :: "string \<rightharpoonup> ref"
  modified :: bool
  user :: User
  profiles :: "Profile list"

record Cart =
  cart :: ref                 \<comment> \<open>\<open>self.cart\<close>; \<open>self.request\<close> and \<open>self.session\<close> are the world's\<close>

definition SESSION_KEY :: string where
  "SESSION_KEY = ''cart''"

definition the_cart :: "Cart \<Rightarrow> world \<Rightarrow> pydict" where
  \<comment> \<open>the dictionary \<open>self.cart\<close> refers to\<close>
  "the_cart self w = heap w (cart self)"

definition set_cart :: "Cart \<Rightarrow> pydict \<Rightarrow> world \<Rightarrow> world" where
  \<comment> \<open>the object \<open>self.cart\<close> refers to is mutated in place\<close>
  "set_cart self d w = w\<lparr>heap := (heap w)(cart self := d)\<rparr>"

definition session_setitem :: "string \<Rightarrow> ref \<Rightarrow> world \<Rightarrow> world" where
  \<comment> \<open>\<open>session[k] = v\<close>: the framework's session stores the value and marks itself modified\<close>
  "session_setitem k r w = w\<lparr>session := (session w)(k \<mapsto> r), modified := True\<rparr>"

definition new_dict :: "world \<Rightarrow> ref \<times> world" where
  \<comment> \<open>\<open>{}\<close>: a fresh, empty dictionary object\<close>
  "new_dict w =
     (allocated w, w\<lparr>heap := (heap w)(allocated w := DAList.empty), allocated := Suc (allocated w)\<rparr>)"

subsection \<open>The class \<open>Cart\<close>\<close>

definition init :: "world \<Rightarrow> Cart \<times> world" where
  \<comment> \<open>\<open>Cart.__init__\<close>\<close>
  "init w =
     (case session w SESSION_KEY of
        None \<Rightarrow> (let (r, w1) = new_dict w in (\<lparr>cart = r\<rparr>, session_setitem SESSION_KEY r w1))
      | Some r \<Rightarrow> (\<lparr>cart = r\<rparr>, w))"

definition sync_profile :: "int \<Rightarrow> pydict \<Rightarrow> Profile \<Rightarrow> Profile" where
  \<comment> \<open>\<open>filter(user_id=u).update(old_cart=d)\<close> on one row\<close>
  "sync_profile u d p = (if user_id p = u then p\<lparr>old_cart := d\<rparr> else p)"

definition save :: "Cart \<Rightarrow> world \<Rightarrow> world" where
  \<comment> \<open>\<open>Cart._save\<close>\<close>
  "save self w =
     (let w1 = w\<lparr>modified := True\<rparr> in
      if is_authenticated (user w1)
      then w1\<lparr>profiles := map (sync_profile (uid (user w1)) (the_cart self w1)) (profiles w1)\<rparr>
      else w1)"

definition get_product_id :: "product_arg \<Rightarrow> string" where
  \<comment> \<open>\<open>Cart._get_product_id\<close>\<close>
  "get_product_id product = py_str (case product of HasId i \<Rightarrow> i | NoId v \<Rightarrow> v)"

definition add :: "Cart \<Rightarrow> product_arg \<Rightarrow> quantity \<Rightarrow> world \<Rightarrow> py_error + world" where
  \<comment> \<open>\<open>Cart.add\<close>; \<open>int(quantity)\<close> is evaluated only when the id is new\<close>
  "add self product quantity w =
     (let product_id = get_product_id product in
      if \<not> dict_contains (the_cart self w) product_id
      then (case py_int quantity of
              Inl e \<Rightarrow> Inl e
            | Inr n \<Rightarrow> Inr (save self (set_cart self (dict_setitem (the_cart self w) product_id n) w)))
      else Inr (save self w))"

definition update :: "Cart \<Rightarrow> product_arg \<Rightarrow> quantity \<Rightarrow> world \<Rightarrow> py_error + (ref \<times> world)" where
  \<comment> \<open>\<open>Cart.update\<close>; the value returned is the reference \<open>self.cart\<close>\<close>
  "update self product quantity w =
     (let product_id = get_product_id product in
      case py_int quantity of
        Inl e \<Rightarrow> Inl e
      | Inr n \<Rightarrow>
          (let w1 = save self (set_cart self (dict_setitem (the_cart self w) product_id n) w)
           in Inr (cart self, w1)))"

definition delete :: "Cart \<Rightarrow> product_arg \<Rightarrow> world \<Rightarrow> py_error + world" where
  \<comment> \<open>\<open>Cart.delete\<close>\<close>
  "delete self product w =
     (let product_id = get_product_id product in
      if dict_contains (the_cart self w) product_id
      then (case dict_delitem (the_cart self w) product_id of
              Inl e \<Rightarrow> Inl e
            | Inr d \<Rightarrow> Inr (save self (set_cart self d w)))
      else Inr (save self w))"

definition len :: "Cart \<Rightarrow> world \<Rightarrow> nat" where
  \<comment> \<open>\<open>Cart.__len__\<close>\<close>
  "len self w = dict_len (the_cart self w)"

definition get_quantities :: "Cart \<Rightarrow> world \<Rightarrow> ref" where
  \<comment> \<open>\<open>Cart.get_quantities\<close>: the live dictionary, by reference\<close>
  "get_quantities self w = cart self"

subsection \<open>The catalog and the total price\<close>

text \<open>
  A row of the catalog behind \<open>Product.objects\<close>. Prices are values of any ring that
  contains the integers (exact arithmetic); \<open>is_sale\<close> is \<open>None\<close> when the object has no
  such attribute, which \<open>getattr(product, "is_sale", False)\<close> reads as false.
\<close>

record 'a Product =
  pid :: pyval                \<comment> \<open>the attribute \<open>id\<close>\<close>
  price :: 'a
  sale_price :: 'a
  is_sale :: "bool option"

definition id_in :: "pyval \<Rightarrow> string list \<Rightarrow> bool" where
  \<comment> \<open>Modelled from the spec: the catalog's query \<open>filter(id__in=product_ids)\<close>, which lives
      in the framework and the absent \<open>store.models\<close>; it selects the products whose id is
      in the cart's key set, the id taken in its string form as the keys are.\<close>
  "id_in i product_ids = (py_str i \<in> set product_ids)"

definition get_products :: "'a Product list \<Rightarrow> Cart \<Rightarrow> world \<Rightarrow> 'a Product list" where
  \<comment> \<open>\<open>Cart.get_products\<close>, the rows in the catalog's order\<close>
  "get_products catalog self w =
     (let product_ids = dict_keys (the_cart self w)
      in filter (\<lambda>p. id_in (pid p) product_ids) catalog)"

definition getattr_is_sale :: "'a Product \<Rightarrow> bool" where
  \<comment> \<open>\<open>getattr(product, "is_sale", False)\<close>\<close>
  "getattr_is_sale product = (case is_sale product of None \<Rightarrow> False | Some b \<Rightarrow> b)"

fun total_loop :: "pydict \<Rightarrow> 'a::ring_1 \<Rightarrow> 'a Product list \<Rightarrow> 'a" where
  \<comment> \<open>the \<open>for\<close> loop of \<open>get_total_price\<close>; \<open>tot\<close> is the variable \<open>total\<close>\<close>
  "total_loop d tot [] = tot"
| "total_loop d tot (product # products) =
     (let quantity = dict_get d (py_str (pid product)) 0;
          unit_price = (if getattr_is_sale product then sale_price product else price product)
      in total_loop d (tot + unit_price * of_int quantity) products)"

definition get_total_price :: "'a::ring_1 Product list \<Rightarrow> Cart \<Rightarrow> world \<Rightarrow> 'a" where
  \<comment> \<open>\<open>Cart.get_total_price\<close>\<close>
  "get_total_price catalog self w =
     (let products = get_products catalog self w in total_loop (the_cart self w) 0 products)"

subsection \<open>Sequences of calls\<close>

datatype call = Add product_arg quantity | Update product_arg quantity | Delete product_arg

fun step :: "Cart \<Rightarrow> call \<Rightarrow> world \<Rightarrow> py_error + world" where
  "step self (Add product quantity) w = add self product quantity w"
| "step self (Update product quantity) w =
     (case update self product quantity w of Inl e \<Rightarrow> Inl e | Inr (r, w') \<Rightarrow> Inr w')"
| "step self (Delete product) w = delete self product w"

text \<open>A sequence of calls; an exception ends it.\<close>

fun run :: "Cart \<Rightarrow> call list \<Rightarrow> world \<Rightarrow> py_error + world" where
  "run self [] w = Inr w"
| "run self (c # cs) w = (case step self c w of Inl e \<Rightarrow> Inl e | Inr w' \<Rightarrow> run self cs w')"

text \<open>
  The sign of the stored quantities: \<open>nonneg\<close> holds of a dictionary whose values are
  all at least 0, \<open>nonneg_call\<close> of a call whose quantity, where \<open>int\<close> accepts it, is at
  least 0.
\<close>

definition nonneg :: "pydict \<Rightarrow> bool" where
  "nonneg d = list_all (\<lambda>(k, v). 0 \<le> v) (DAList.impl_of d)"

fun nonneg_quantity :: "quantity \<Rightarrow> bool" where
  "nonneg_quantity (QInt n) = (0 \<le> n)"
| "nonneg_quantity (QBad e) = True"

fun nonneg_call :: "call \<Rightarrow> bool" where
  "nonneg_call (Add product quantity) = nonneg_quantity quantity"
| "nonneg_call (Update product quantity) = nonneg_quantity quantity"
| "nonneg_call (Delete product) = True"

subsection \<open>Concrete worlds\<close>

definition anonymous :: User where
  "anonymous = \<lparr>is_authenticated = False, uid = 0\<rparr>"

definition alice :: User where
  "alice = \<lparr>is_authenticated = True, uid = 7\<rparr>"

definition fresh_world :: "User \<Rightarrow> Profile list \<Rightarrow> world" where
  \<comment> \<open>a request whose session has no entries yet\<close>
  "fresh_world u ps =
     \<lparr>heap = (\<lambda>r. DAList.empty), allocated = 0, session = Map.empty, modified = False,
      user = u, profiles = ps\<rparr>"

definition dict_of :: "(string \<times> int) list \<Rightarrow> pydict" where
  \<comment> \<open>the dictionary built by storing the pairs in order\<close>
  "dict_of kvs = foldl (\<lambda>d (k, v). dict_setitem d k v) DAList.empty kvs"

definition world_with :: "User \<Rightarrow> Profile list \<Rightarrow> pydict \<Rightarrow> world" where
  \<comment> \<open>a request whose session already holds the given cart, as object 0\<close>
  "world_with u ps d =
     \<lparr>heap = (\<lambda>r. if r = 0 then d else DAList.empty), allocated = 1,
      session = [SESSION_KEY \<mapsto> 0], modified = False, user = u, profiles = ps\<rparr>"

definition two_profiles :: "Profile list" where
  \<comment> \<open>the row of user 7, holding an older cart, and the row of another user\<close>
  "two_profiles =
     [\<lparr>user_id = 7, old_cart = dict_of [(''old'', 1)]\<rparr>,
      \<lparr>user_id = 8, old_cart = dict_of [(''x'', 2)]\<rparr>]"

definition shop :: "int Product list" where
  \<comment> \<open>p1 at 10, not on sale; p2 at 20, on sale at 15; there is no p3\<close>
  "shop =
     [\<lparr>pid = PStr ''p1'', price = 10, sale_price = 8, is_sale = Some False\<rparr>,
      \<lparr>pid = PStr ''p2'', price = 20, sale_price = 15, is_sale = Some True\<rparr>]"

definition cart0 :: Cart where
  "cart0 = \<lparr>cart = 0\<rparr>"

definition p1 :: product_arg where
  "p1 = NoId (PStr ''p1'')"

section \<open>Properties\<close>

subsection \<open>What \<open>_save\<close> and the in-place mutation leave alone\<close>

lemma the_cart_set_cart: "the_cart self (set_cart self d w) = d"
  by (simp add: the_cart_def set_cart_def)

lemma heap_save: "heap (save self w) = heap w"
  by (simp add: save_def Let_def)

lemma the_cart_save: "the_cart self (save self w) = the_cart self w"
  by (simp add: the_cart_def heap_save)

lemma session_save: "session (save self w) = session w"
  by (simp add: save_def Let_def)

lemma modified_save: "modified (save self w)"
  by (simp add: save_def Let_def)

lemma user_save: "user (save self w) = user w"
  by (simp add: save_def Let_def)

lemma profiles_save:
  "profiles (save self w) =
     (if is_authenticated (user w)
      then map (sync_profile (uid (user w)) (the_cart self w)) (profiles w)
      else profiles w)"
  by (simp add: save_def Let_def the_cart_def)

lemma set_cart_fields:
  "session (set_cart self d w) = session w"
  "modified (set_cart self d w) = modified w"
  "user (set_cart self d w) = user w"
  "profiles (set_cart self d w) = profiles w"
  "allocated (set_cart self d w) = allocated w"
  by (simp_all add: set_cart_def)

subsection \<open>Dictionary operations\<close>

lemma lookup_setitem:
  "DAList.lookup (dict_setitem d k v) k' = (if k' = k then Some v else DAList.lookup d k')"
  by (auto simp add: dict_setitem_def DAList.lookup_update)

lemma contains_setitem: "dict_contains (dict_setitem d k v) k' = (k' = k \<or> dict_contains d k')"
  by (simp add: dict_contains_def lookup_setitem)

lemma keys_setitem:
  "dict_keys (dict_setitem d k v) =
     (if dict_contains d k then dict_keys d else dict_keys d @ [k])"
  by (simp add: dict_keys_def dict_setitem_def dict_contains_def DAList.update.rep_eq
      DAList.lookup.rep_eq update_keys map_of_eq_None_iff)

lemma set_dict_keys: "set (dict_keys d) = {k. dict_contains d k}"
  by (auto simp add: dict_keys_def dict_contains_def DAList.lookup.rep_eq map_of_eq_None_iff)

lemma distinct_dict_keys: "distinct (dict_keys d)"
  by (simp add: dict_keys_def)

lemma dict_len_keys: "dict_len d = length (dict_keys d)"
  by (simp add: dict_len_def dict_keys_def)

lemma keys_delete: "dict_keys (DAList.delete k d) = removeAll k (dict_keys d)"
  by (simp add: dict_keys_def DAList.delete.rep_eq delete_keys)

lemma delete_absent_id: "\<not> dict_contains d k \<Longrightarrow> DAList.delete k d = d"
  by (simp add: dict_contains_def DAList.alist_eq_iff DAList.delete.rep_eq DAList.lookup.rep_eq
      map_of_eq_None_iff)

subsection \<open>The methods, one equation per branch\<close>

lemma add_new:
  assumes "\<not> dict_contains (the_cart self w) (get_product_id product)"
    and "py_int quantity = Inr n"
  shows "add self product quantity w =
           Inr (save self (set_cart self (dict_setitem (the_cart self w) (get_product_id product) n) w))"
  using assms by (simp add: add_def Let_def)

lemma add_new_raises:
  assumes "\<not> dict_contains (the_cart self w) (get_product_id product)"
    and "py_int quantity = Inl e"
  shows "add self product quantity w = Inl e"
  using assms by (simp add: add_def Let_def)

lemma add_present:
  assumes "dict_contains (the_cart self w) (get_product_id product)"
  shows "add self product quantity w = Inr (save self w)"
  using assms by (simp add: add_def Let_def)

lemma update_int:
  assumes "py_int quantity = Inr n"
  shows "update self product quantity w =
           Inr (cart self,
                save self (set_cart self (dict_setitem (the_cart self w) (get_product_id product) n) w))"
  using assms by (simp add: update_def Let_def)

lemma update_raises:
  assumes "py_int quantity = Inl e"
  shows "update self product quantity w = Inl e"
  using assms by (simp add: update_def Let_def)

lemma delete_present:
  assumes "dict_contains (the_cart self w) (get_product_id product)"
  shows "delete self product w =
           Inr (save self (set_cart self (DAList.delete (get_product_id product) (the_cart self w)) w))"
  using assms by (simp add: delete_def dict_delitem_def Let_def)

lemma delete_absent:
  assumes "\<not> dict_contains (the_cart self w) (get_product_id product)"
  shows "delete self product w = Inr (save self w)"
  using assms by (simp add: delete_def Let_def)

lemma the_cart_after_update:
  "the_cart self (save self (set_cart self d w)) = d"
  by (simp add: the_cart_save the_cart_set_cart)

lemmas world_defs =
  cart0_def p1_def fresh_world_def world_with_def dict_of_def anonymous_def alice_def
  init_def new_dict_def session_setitem_def SESSION_KEY_def the_cart_def set_cart_def
  save_def sync_profile_def get_product_id_def dict_contains_def dict_setitem_def
  dict_delitem_def Let_def

subsection \<open>Adding\<close>

text \<open>
  C1. Let \<open>p\<close> be the normalized id of the product. If \<open>p\<close> is not a key of the cart,
  \<open>add(product, q)\<close> stores \<open>int(q)\<close> under \<open>p\<close> and changes no other key (and raises what
  \<open>int(q)\<close> raises, if it does). If \<open>p\<close> is a key already, \<open>add\<close> returns and the whole
  mapping is what it was: the quantity is neither incremented nor overwritten.
\<close>

theorem add_inserts_new_keeps_present:
  fixes self :: Cart and w :: world and product :: product_arg and quantity :: quantity
  defines "p \<equiv> get_product_id product"
  shows "(\<not> dict_contains (the_cart self w) p \<longrightarrow>
            (\<forall>n. py_int quantity = Inr n \<longrightarrow>
               (\<exists>w'. add self product quantity w = Inr w'
                  \<and> the_cart self w' = dict_setitem (the_cart self w) p n
                  \<and> DAList.lookup (the_cart self w') p = Some n
                  \<and> (\<forall>k. k \<noteq> p \<longrightarrow>
                        DAList.lookup (the_cart self w') k = DAList.lookup (the_cart self w) k)))
            \<and> (\<forall>e. py_int quantity = Inl e \<longrightarrow> add self product quantity w = Inl e))
       \<and> (dict_contains (the_cart self w) p \<longrightarrow>
            (\<exists>w'. add self product quantity w = Inr w' \<and> the_cart self w' = the_cart self w))"
proof (intro conjI impI allI)
  fix n
  assume new: "\<not> dict_contains (the_cart self w) p" and q: "py_int quantity = Inr n"
  let ?w' = "save self (set_cart self (dict_setitem (the_cart self w) p n) w)"
  have "add self product quantity w = Inr ?w'"
    using new q unfolding p_def by (rule add_new)
  moreover have "the_cart self ?w' = dict_setitem (the_cart self w) p n"
    by (simp add: the_cart_save the_cart_set_cart)
  ultimately show "\<exists>w'. add self product quantity w = Inr w'
      \<and> the_cart self w' = dict_setitem (the_cart self w) p n
      \<and> DAList.lookup (the_cart self w') p = Some n
      \<and> (\<forall>k. k \<noteq> p \<longrightarrow> DAList.lookup (the_cart self w') k = DAList.lookup (the_cart self w) k)"
    by (simp add: lookup_setitem)
next
  fix e
  assume "\<not> dict_contains (the_cart self w) p" and "py_int quantity = Inl e"
  then show "add self product quantity w = Inl e"
    unfolding p_def by (rule add_new_raises)
next
  assume "dict_contains (the_cart self w) p"
  then have "add self product quantity w = Inr (save self w)"
    unfolding p_def by (rule add_present)
  then show "\<exists>w'. add self product quantity w = Inr w' \<and> the_cart self w' = the_cart self w"
    by (simp add: the_cart_save)
qed

text \<open>
  On a new session \<open>add("p1", 3)\<close> gives the mapping \<open>{"p1": 3}\<close>, and \<open>add\<close> with a
  quantity that \<open>int\<close> rejects raises; on \<open>{"p1": 3}\<close>, \<open>add("p1", 7)\<close> changes nothing.
\<close>

theorem add_inserts_new_keeps_present_witness:
  "\<not> dict_contains (the_cart cart0 (snd (init (fresh_world anonymous [])))) (get_product_id p1)
   \<and> py_int (QInt 3) = Inr 3
   \<and> (\<exists>w'. add cart0 p1 (QInt 3) (snd (init (fresh_world anonymous []))) = Inr w'
         \<and> the_cart cart0 w' = dict_of [(''p1'', 3)])
   \<and> py_int (QBad ValueError) = Inl ValueError
   \<and> add cart0 p1 (QBad ValueError) (snd (init (fresh_world anonymous []))) = Inl ValueError
   \<and> dict_contains (the_cart cart0 (world_with anonymous [] (dict_of [(''p1'', 3)]))) (get_product_id p1)
   \<and> (\<exists>w'. add cart0 p1 (QInt 7) (world_with anonymous [] (dict_of [(''p1'', 3)])) = Inr w'
         \<and> the_cart cart0 w' = dict_of [(''p1'', 3)])"
proof -
  let ?w1 = "snd (init (fresh_world anonymous []))"
  let ?w2 = "world_with anonymous [] (dict_of [(''p1'', 3)])"
  have new: "\<not> dict_contains (the_cart cart0 ?w1) (get_product_id p1)"
    by (simp add: world_defs)
  have q: "py_int (QInt 3) = Inr 3"
    by simp
  have bad: "py_int (QBad ValueError) = Inl ValueError"
    by simp
  have d1: "dict_setitem (the_cart cart0 ?w1) (get_product_id p1) 3 = dict_of [(''p1'', 3)]"
    by (simp add: world_defs)
  have present: "dict_contains (the_cart cart0 ?w2) (get_product_id p1)"
    by (simp add: world_defs)
  have d2: "the_cart cart0 ?w2 = dict_of [(''p1'', 3)]"
    by (simp add: world_defs)
  from add_inserts_new_keeps_present [of cart0 ?w1 p1 "QInt 3"] new q d1
  have first: "\<exists>w'. add cart0 p1 (QInt 3) ?w1 = Inr w' \<and> the_cart cart0 w' = dict_of [(''p1'', 3)]"
    by auto
  from add_inserts_new_keeps_present [of cart0 ?w1 p1 "QBad ValueError"] new bad
  have raises: "add cart0 p1 (QBad ValueError) ?w1 = Inl ValueError"
    by blast
  from add_inserts_new_keeps_present [of cart0 ?w2 p1 "QInt 7"] present d2
  have second: "\<exists>w'. add cart0 p1 (QInt 7) ?w2 = Inr w' \<and> the_cart cart0 w' = dict_of [(''p1'', 3)]"
    by auto
  from new q first bad raises present second show ?thesis
    by blast
qed

subsection \<open>Updating\<close>

text \<open>
  C2. Let \<open>p\<close> be the normalized id of the product. Whenever \<open>int(q)\<close> is an integer,
  \<open>update(product, q)\<close> returns the reference \<open>self.cart\<close>, and the dictionary behind it is
  the old one with \<open>int(q)\<close> stored under \<open>p\<close>: that entry is overwritten whatever it
  was, no other key changes. This includes an id that a preceding \<open>add\<close> found present
  and left as it was. Two updates in a row leave the second quantity.
\<close>

theorem update_overwrites:
  fixes self :: Cart and w :: world and product :: product_arg
  defines "p \<equiv> get_product_id product"
  shows "(\<forall>quantity n. py_int quantity = Inr n \<longrightarrow>
            (\<exists>r w'. update self product quantity w = Inr (r, w')
               \<and> r = cart self
               \<and> heap w' r = dict_setitem (the_cart self w) p n
               \<and> DAList.lookup (the_cart self w') p = Some n
               \<and> (\<forall>k. k \<noteq> p \<longrightarrow>
                     DAList.lookup (the_cart self w') k = DAList.lookup (the_cart self w) k)))
       \<and> (\<forall>q0 n. dict_contains (the_cart self w) p \<longrightarrow>
            (\<exists>w1 w2. add self product q0 w = Inr w1
               \<and> the_cart self w1 = the_cart self w
               \<and> update self product (QInt n) w1 = Inr (cart self, w2)
               \<and> DAList.lookup (the_cart self w2) p = Some n))
       \<and> (\<forall>a b. \<exists>w1 w2. update self product (QInt a) w = Inr (cart self, w1)
               \<and> update self product (QInt b) w1 = Inr (cart self, w2)
               \<and> DAList.lookup (the_cart self w2) p = Some b)"
proof (intro conjI allI impI)
  fix quantity n
  assume q: "py_int quantity = Inr n"
  let ?d = "dict_setitem (the_cart self w) p n"
  let ?w' = "save self (set_cart self ?d w)"
  have "update self product quantity w = Inr (cart self, ?w')"
    unfolding p_def using q by (rule update_int)
  moreover have "heap ?w' (cart self) = ?d"
    using the_cart_after_update [of self ?d w] by (simp add: the_cart_def)
  moreover have "the_cart self ?w' = ?d"
    by (rule the_cart_after_update)
  ultimately show "\<exists>r w'. update self product quantity w = Inr (r, w')
      \<and> r = cart self
      \<and> heap w' r = dict_setitem (the_cart self w) p n
      \<and> DAList.lookup (the_cart self w') p = Some n
      \<and> (\<forall>k. k \<noteq> p \<longrightarrow> DAList.lookup (the_cart self w') k = DAList.lookup (the_cart self w) k)"
    by (simp add: lookup_setitem)
next
  fix q0 n
  assume present: "dict_contains (the_cart self w) p"
  let ?w1 = "save self w"
  let ?w2 = "save self (set_cart self (dict_setitem (the_cart self ?w1) p n) ?w1)"
  have "add self product q0 w = Inr ?w1"
    using present unfolding p_def by (rule add_present)
  moreover have "the_cart self ?w1 = the_cart self w"
    by (rule the_cart_save)
  moreover have "update self product (QInt n) ?w1 = Inr (cart self, ?w2)"
    unfolding p_def by (rule update_int) simp
  moreover have "DAList.lookup (the_cart self ?w2) p = Some n"
    by (simp add: the_cart_after_update lookup_setitem)
  ultimately show "\<exists>w1 w2. add self product q0 w = Inr w1
      \<and> the_cart self w1 = the_cart self w
      \<and> update self product (QInt n) w1 = Inr (cart self, w2)
      \<and> DAList.lookup (the_cart self w2) p = Some n"
    by blast
next
  fix a b
  let ?w1 = "save self (set_cart self (dict_setitem (the_cart self w) p a) w)"
  let ?w2 = "save self (set_cart self (dict_setitem (the_cart self ?w1) p b) ?w1)"
  have "update self product (QInt a) w = Inr (cart self, ?w1)"
    unfolding p_def by (rule update_int) simp
  moreover have "update self product (QInt b) ?w1 = Inr (cart self, ?w2)"
    unfolding p_def by (rule update_int) simp
  moreover have "DAList.lookup (the_cart self ?w2) p = Some b"
    by (simp add: the_cart_after_update lookup_setitem)
  ultimately show "\<exists>w1 w2. update self product (QInt a) w = Inr (cart self, w1)
      \<and> update self product (QInt b) w1 = Inr (cart self, w2)
      \<and> DAList.lookup (the_cart self w2) p = Some b"
    by blast
qed

text \<open>
  \<open>update("p1", 7)\<close> on \<open>{"p1": 3}\<close> gives \<open>{"p1": 7}\<close>, also after \<open>add("p1", 9)\<close> has
  left the 3 alone; \<open>update("p1", 5)\<close> and then \<open>update("p1", 2)\<close> leaves quantity 2.
\<close>

theorem update_overwrites_witness:
  "py_int (QInt 7) = Inr 7
   \<and> dict_contains (the_cart cart0 (world_with anonymous [] (dict_of [(''p1'', 3)]))) (get_product_id p1)
   \<and> (\<exists>w'. update cart0 p1 (QInt 7) (world_with anonymous [] (dict_of [(''p1'', 3)])) = Inr (0, w')
         \<and> heap w' 0 = dict_of [(''p1'', 7)])
   \<and> (\<exists>w1 w2. add cart0 p1 (QInt 9) (world_with anonymous [] (dict_of [(''p1'', 3)])) = Inr w1
         \<and> the_cart cart0 w1 = dict_of [(''p1'', 3)]
         \<and> update cart0 p1 (QInt 7) w1 = Inr (0, w2)
         \<and> DAList.lookup (the_cart cart0 w2) ''p1'' = Some 7)
   \<and> (\<exists>w1 w2. update cart0 p1 (QInt 5) (snd (init (fresh_world anonymous []))) = Inr (0, w1)
         \<and> update cart0 p1 (QInt 2) w1 = Inr (0, w2)
         \<and> DAList.lookup (the_cart cart0 w2) ''p1'' = Some 2)"
proof -
  let ?u = "world_with anonymous [] (dict_of [(''p1'', 3)])"
  let ?v = "snd (init (fresh_world anonymous []))"
  have q: "py_int (QInt 7) = Inr 7"
    by simp
  have present: "dict_contains (the_cart cart0 ?u) (get_product_id p1)"
    by (simp add: world_defs)
  have d: "dict_setitem (the_cart cart0 ?u) (get_product_id p1) 7 = dict_of [(''p1'', 7)]"
    by (simp add: world_defs)
  have e: "the_cart cart0 ?u = dict_of [(''p1'', 3)]"
    by (simp add: world_defs)
  have c: "cart cart0 = 0" and k: "get_product_id p1 = ''p1''"
    by (simp_all add: world_defs)
  note thm1 = update_overwrites [where self = cart0 and product = p1 and w = ?u,
      THEN conjunct1, rule_format, OF q]
  note thm2 = update_overwrites [where self = cart0 and product = p1 and w = ?u,
      THEN conjunct2, THEN conjunct1, rule_format, OF present, of "QInt 9" 7]
  note thm3 = update_overwrites [where self = cart0 and product = p1 and w = ?v,
      THEN conjunct2, THEN conjunct2, rule_format, of 5 2]
  from thm1
  have first: "\<exists>w'. update cart0 p1 (QInt 7) ?u = Inr (0, w') \<and> heap w' 0 = dict_of [(''p1'', 7)]"
    unfolding d c by blast
  from thm2
  have after_add: "\<exists>w1 w2. add cart0 p1 (QInt 9) ?u = Inr w1
         \<and> the_cart cart0 w1 = dict_of [(''p1'', 3)]
         \<and> update cart0 p1 (QInt 7) w1 = Inr (0, w2)
         \<and> DAList.lookup (the_cart cart0 w2) ''p1'' = Some 7"
    unfolding c k e .
  from thm3
  have second: "\<exists>w1 w2. update cart0 p1 (QInt 5) ?v = Inr (0, w1)
         \<and> update cart0 p1 (QInt 2) w1 = Inr (0, w2)
         \<and> DAList.lookup (the_cart cart0 w2) ''p1'' = Some 2"
    unfolding c k .
  from q present first after_add second show ?thesis
    by blast
qed

subsection \<open>Deleting\<close>

text \<open>
  C4. Let \<open>p\<close> be the normalized id of the product. \<open>delete(product)\<close> always returns: the
  \<open>KeyError\<close> of \<open>del\<close> is never raised. If \<open>p\<close> is a key of the cart, it is a key no
  longer, the other keys stay in their order and keep their quantities. If \<open>p\<close> is not a
  key, the mapping is what it was.
\<close>

theorem delete_removes_or_noop:
  fixes self :: Cart and w :: world and product :: product_arg
  defines "p \<equiv> get_product_id product"
  shows "(\<exists>w'. delete self product w = Inr w')
       \<and> (dict_contains (the_cart self w) p \<longrightarrow>
            (\<exists>w'. delete self product w = Inr w'
               \<and> \<not> dict_contains (the_cart self w') p
               \<and> dict_keys (the_cart self w') = removeAll p (dict_keys (the_cart self w))
               \<and> (\<forall>k. k \<noteq> p \<longrightarrow>
                     DAList.lookup (the_cart self w') k = DAList.lookup (the_cart self w) k)))
       \<and> (\<not> dict_contains (the_cart self w) p \<longrightarrow>
            (\<exists>w'. delete self product w = Inr w' \<and> the_cart self w' = the_cart self w))"
proof -
  have absent: "\<exists>w'. delete self product w = Inr w' \<and> the_cart self w' = the_cart self w"
    if "\<not> dict_contains (the_cart self w) p"
  proof -
    from that have "delete self product w = Inr (save self w)"
      unfolding p_def by (rule delete_absent)
    then show ?thesis
      by (simp add: the_cart_save)
  qed
  have present: "\<exists>w'. delete self product w = Inr w'
      \<and> \<not> dict_contains (the_cart self w') p
      \<and> dict_keys (the_cart self w') = removeAll p (dict_keys (the_cart self w))
      \<and> (\<forall>k. k \<noteq> p \<longrightarrow> DAList.lookup (the_cart self w') k = DAList.lookup (the_cart self w) k)"
    if "dict_contains (the_cart self w) p"
  proof -
    let ?d = "DAList.delete p (the_cart self w)"
    from that have "delete self product w = Inr (save self (set_cart self ?d w))"
      unfolding p_def by (rule delete_present)
    moreover have "the_cart self (save self (set_cart self ?d w)) = ?d"
      by (rule the_cart_after_update)
    ultimately show ?thesis
      by (simp add: dict_contains_def keys_delete)
  qed
  from absent present show ?thesis
    by blast
qed

text \<open>
  \<open>delete("p1")\<close> empties \<open>{"p1": 7}\<close> and leaves \<open>{"p2": 4}\<close> as it is.
\<close>

theorem delete_removes_or_noop_witness:
  "dict_contains (the_cart cart0 (world_with anonymous [] (dict_of [(''p1'', 7)]))) (get_product_id p1)
   \<and> (\<exists>w'. delete cart0 p1 (world_with anonymous [] (dict_of [(''p1'', 7)])) = Inr w'
         \<and> dict_keys (the_cart cart0 w') = [])
   \<and> \<not> dict_contains (the_cart cart0 (world_with anonymous [] (dict_of [(''p2'', 4)]))) (get_product_id p1)
   \<and> (\<exists>w'. delete cart0 p1 (world_with anonymous [] (dict_of [(''p2'', 4)])) = Inr w'
         \<and> the_cart cart0 w' = dict_of [(''p2'', 4)])"
proof -
  let ?u = "world_with anonymous [] (dict_of [(''p1'', 7)])"
  let ?v = "world_with anonymous [] (dict_of [(''p2'', 4)])"
  have present: "dict_contains (the_cart cart0 ?u) (get_product_id p1)"
    by (simp add: world_defs)
  have absent: "\<not> dict_contains (the_cart cart0 ?v) (get_product_id p1)"
    by (simp add: world_defs)
  have ks: "removeAll (get_product_id p1) (dict_keys (the_cart cart0 ?u)) = []"
    by (simp add: world_defs dict_keys_def DAList.update.rep_eq DAList.empty.rep_eq)
  have d: "the_cart cart0 ?v = dict_of [(''p2'', 4)]"
    by (simp add: world_defs)
  note thm1 = delete_removes_or_noop [where self = cart0 and product = p1 and w = ?u,
      THEN conjunct2, THEN conjunct1, rule_format, OF present]
  note thm2 = delete_removes_or_noop [where self = cart0 and product = p1 and w = ?v,
      THEN conjunct2, THEN conjunct2, rule_format, OF absent]
  from thm1 have first: "\<exists>w'. delete cart0 p1 ?u = Inr w' \<and> dict_keys (the_cart cart0 w') = []"
    unfolding ks by blast
  from thm2 have second: "\<exists>w'. delete cart0 p1 ?v = Inr w' \<and> the_cart cart0 w' = dict_of [(''p2'', 4)]"
    unfolding d .
  from present first absent second show ?thesis
    by blast
qed

subsection \<open>Length\<close>

text \<open>
  C5. The length of the cart is the number of distinct product ids that are keys of the
  mapping. It does not depend on the quantities: overwriting the quantity of a key that
  is present leaves the length as it is, and two carts with the same keys have the same
  length.
\<close>

theorem len_counts_distinct_ids:
  "len self w = card {k. dict_contains (the_cart self w) k}
   \<and> len self w = card (set (dict_keys (the_cart self w)))
   \<and> (\<forall>product n. dict_contains (the_cart self w) (get_product_id product) \<longrightarrow>
         (\<exists>r w'. update self product (QInt n) w = Inr (r, w') \<and> len self w' = len self w))
   \<and> (\<forall>w'. dict_keys (the_cart self w') = dict_keys (the_cart self w) \<longrightarrow> len self w' = len self w)"
proof (intro conjI allI impI)
  show keys: "len self w = card (set (dict_keys (the_cart self w)))"
    by (simp add: len_def dict_len_keys distinct_card distinct_dict_keys)
  then show "len self w = card {k. dict_contains (the_cart self w) k}"
    by (simp add: set_dict_keys)
next
  fix product n
  assume present: "dict_contains (the_cart self w) (get_product_id product)"
  let ?d = "dict_setitem (the_cart self w) (get_product_id product) n"
  let ?w' = "save self (set_cart self ?d w)"
  have "update self product (QInt n) w = Inr (cart self, ?w')"
    by (rule update_int) simp
  moreover have "len self ?w' = len self w"
    using present by (simp add: len_def dict_len_keys the_cart_after_update keys_setitem)
  ultimately show "\<exists>r w'. update self product (QInt n) w = Inr (r, w') \<and> len self w' = len self w"
    by blast
next
  fix w'
  assume "dict_keys (the_cart self w') = dict_keys (the_cart self w)"
  then show "len self w' = len self w"
    by (simp add: len_def dict_len_keys)
qed

text \<open>
  A cart with two ids of quantity 10 each has length 2, and still has after one of the
  quantities is set to 500; the same two ids with quantities 1 and 99 have length 2.
\<close>

theorem len_counts_distinct_ids_witness:
  "len cart0 (world_with anonymous [] (dict_of [(''p1'', 10), (''p2'', 10)])) = 2
   \<and> card {k. dict_contains (the_cart cart0 (world_with anonymous [] (dict_of [(''p1'', 10), (''p2'', 10)]))) k} = 2
   \<and> dict_contains (the_cart cart0 (world_with anonymous [] (dict_of [(''p1'', 10), (''p2'', 10)])))
        (get_product_id p1)
   \<and> (\<exists>r w'. update cart0 p1 (QInt 500) (world_with anonymous [] (dict_of [(''p1'', 10), (''p2'', 10)]))
          = Inr (r, w') \<and> len cart0 w' = 2)
   \<and> dict_keys (the_cart cart0 (world_with anonymous [] (dict_of [(''p1'', 1), (''p2'', 99)]))) =
       dict_keys (the_cart cart0 (world_with anonymous [] (dict_of [(''p1'', 10), (''p2'', 10)])))
   \<and> len cart0 (world_with anonymous [] (dict_of [(''p1'', 1), (''p2'', 99)])) = 2"
proof -
  let ?u = "world_with anonymous [] (dict_of [(''p1'', 10), (''p2'', 10)])"
  let ?v = "world_with anonymous [] (dict_of [(''p1'', 1), (''p2'', 99)])"
  have n: "len cart0 ?u = 2"
    by (simp add: world_defs len_def dict_len_def DAList.update.rep_eq DAList.empty.rep_eq)
  have present: "dict_contains (the_cart cart0 ?u) (get_product_id p1)"
    by (simp add: world_defs)
  have keys: "dict_keys (the_cart cart0 ?v) = dict_keys (the_cart cart0 ?u)"
    by (simp add: world_defs dict_keys_def DAList.update.rep_eq DAList.empty.rep_eq)
  note thm1 = len_counts_distinct_ids [where self = cart0 and w = ?u, THEN conjunct1]
  note thm2 = len_counts_distinct_ids [where self = cart0 and w = ?u,
      THEN conjunct2, THEN conjunct2, THEN conjunct1, rule_format, OF present, of 500]
  note thm3 = len_counts_distinct_ids [where self = cart0 and w = ?u,
      THEN conjunct2, THEN conjunct2, THEN conjunct2, rule_format, OF keys]
  from thm1 n have c: "card {k. dict_contains (the_cart cart0 ?u) k} = 2"
    by simp
  from thm2 have u: "\<exists>r w'. update cart0 p1 (QInt 500) ?u = Inr (r, w') \<and> len cart0 w' = 2"
    unfolding n .
  from thm3 have m: "len cart0 ?v = 2"
    unfolding n .
  from n c present u keys m show ?thesis
    by blast
qed

subsection \<open>Saving\<close>

lemma set_cart_same: "set_cart self (the_cart self w) w = w"
  by (simp add: set_cart_def the_cart_def)

lemma add_result:
  assumes "add self product quantity w = Inr w'"
  shows "w' = save self (set_cart self (the_cart self w') w)"
proof (cases "dict_contains (the_cart self w) (get_product_id product)")
  case True
  then have "add self product quantity w = Inr (save self w)"
    by (rule add_present)
  with assms have "w' = save self w"
    by simp
  then show ?thesis
    by (simp add: the_cart_save set_cart_same)
next
  case False
  show ?thesis
  proof (cases "py_int quantity")
    case (Inl e)
    with False have "add self product quantity w = Inl e"
      by (rule add_new_raises)
    with assms show ?thesis
      by simp
  next
    case (Inr n)
    with False have "add self product quantity w =
        Inr (save self (set_cart self (dict_setitem (the_cart self w) (get_product_id product) n) w))"
      by (rule add_new)
    with assms have "w' =
        save self (set_cart self (dict_setitem (the_cart self w) (get_product_id product) n) w)"
      by simp
    then show ?thesis
      by (simp add: the_cart_after_update)
  qed
qed

lemma update_result:
  assumes "update self product quantity w = Inr (r, w')"
  shows "w' = save self (set_cart self (the_cart self w') w)"
proof (cases "py_int quantity")
  case (Inl e)
  then have "update self product quantity w = Inl e"
    by (rule update_raises)
  with assms show ?thesis
    by simp
next
  case (Inr n)
  then have "update self product quantity w =
      Inr (cart self,
           save self (set_cart self (dict_setitem (the_cart self w) (get_product_id product) n) w))"
    by (rule update_int)
  with assms have "w' =
      save self (set_cart self (dict_setitem (the_cart self w) (get_product_id product) n) w)"
    by simp
  then show ?thesis
    by (simp add: the_cart_after_update)
qed

lemma delete_result:
  assumes "delete self product w = Inr w'"
  shows "w' = save self (set_cart self (the_cart self w') w)"
proof (cases "dict_contains (the_cart self w) (get_product_id product)")
  case True
  then have "delete self product w =
      Inr (save self (set_cart self (DAList.delete (get_product_id product) (the_cart self w)) w))"
    by (rule delete_present)
  with assms have "w' =
      save self (set_cart self (DAList.delete (get_product_id product) (the_cart self w)) w)"
    by simp
  then show ?thesis
    by (simp add: the_cart_after_update)
next
  case False
  then have "delete self product w = Inr (save self w)"
    by (rule delete_absent)
  with assms have "w' = save self w"
    by simp
  then show ?thesis
    by (simp add: the_cart_save set_cart_same)
qed

lemma save_post:
  assumes "w' = save self (set_cart self (the_cart self w') w)"
  shows "modified w'
     \<and> profiles w' =
         (if is_authenticated (user w)
          then map (sync_profile (uid (user w)) (the_cart self w')) (profiles w)
          else profiles w)"
proof -
  let ?m = "set_cart self (the_cart self w') w"
  have "modified (save self ?m)"
    by (rule modified_save)
  moreover have "profiles (save self ?m) =
      (if is_authenticated (user w)
       then map (sync_profile (uid (user w)) (the_cart self w')) (profiles w)
       else profiles w)"
    by (simp add: profiles_save set_cart_fields the_cart_set_cart)
  ultimately show ?thesis
    using assms by simp
qed

lemma save_rows:
  assumes "w' = save self (set_cart self (the_cart self w') w)"
  shows "length (profiles w') = length (profiles w)
     \<and> (\<forall>i<length (profiles w).
           profiles w' ! i =
             (if is_authenticated (user w) \<and> user_id (profiles w ! i) = uid (user w)
              then (profiles w ! i)\<lparr>old_cart := the_cart self w'\<rparr>
              else profiles w ! i))
     \<and> (\<forall>i<length (profiles w).
           is_authenticated (user w) \<longrightarrow> user_id (profiles w ! i) = uid (user w) \<longrightarrow>
             old_cart (profiles w' ! i) = the_cart self w'
             \<and> user_id (profiles w' ! i) = uid (user w))
     \<and> session w' = session w \<and> user w' = user w"
proof -
  let ?m = "set_cart self (the_cart self w') w"
  have p: "profiles (save self ?m) =
      (if is_authenticated (user w)
       then map (sync_profile (uid (user w)) (the_cart self w')) (profiles w)
       else profiles w)"
    by (simp add: profiles_save set_cart_fields the_cart_set_cart)
  have s: "session (save self ?m) = session w" "user (save self ?m) = user w"
    by (simp_all add: session_save user_save set_cart_fields)
  from assms have eq: "profiles w' = profiles (save self ?m)" "session w' = session (save self ?m)"
      "user w' = user (save self ?m)"
    by simp_all
  show ?thesis
    unfolding eq p s by (simp add: sync_profile_def)
qed

text \<open>
  C6. Every call of \<open>add\<close>, \<open>update\<close> or \<open>delete\<close> that returns has run \<open>_save\<close> as its
  last step, on the world with the mapping as the call leaves it: the session's
  \<open>modified\<close> flag is set, and for an authenticated user every profile row of that user
  holds the current mapping in \<open>old_cart\<close>, whatever it held before, while the other rows
  (and all rows, for an anonymous user) are untouched. Row by row: the table keeps its
  length, row \<open>i\<close> is the old row \<open>i\<close> with \<open>old_cart\<close> replaced by the current mapping if
  the user is authenticated and the row's \<open>user_id\<close> is the user's id, and is the old row
  \<open>i\<close> otherwise; the session's entries and the user are as before. The calls return for every
  integer quantity; \<open>add\<close> on an id that is present and \<open>delete\<close> on an id that is absent
  return too, with the mapping unchanged, and so save as well. (A call that raises in
  \<open>int(quantity)\<close> has changed nothing and saved nothing.)
\<close>

theorem mutations_end_with_save:
  fixes self :: Cart and w :: world
  defines "saved \<equiv> \<lambda>w'. w' = save self (set_cart self (the_cart self w') w)
     \<and> modified w'
     \<and> profiles w' =
         (if is_authenticated (user w)
          then map (sync_profile (uid (user w)) (the_cart self w')) (profiles w)
          else profiles w)
     \<and> length (profiles w') = length (profiles w)
     \<and> (\<forall>i<length (profiles w).
           profiles w' ! i =
             (if is_authenticated (user w) \<and> user_id (profiles w ! i) = uid (user w)
              then (profiles w ! i)\<lparr>old_cart := the_cart self w'\<rparr>
              else profiles w ! i))
     \<and> (\<forall>i<length (profiles w).
           is_authenticated (user w) \<longrightarrow> user_id (profiles w ! i) = uid (user w) \<longrightarrow>
             old_cart (profiles w' ! i) = the_cart self w'
             \<and> user_id (profiles w' ! i) = uid (user w))
     \<and> session w' = session w \<and> user w' = user w"
  shows "(\<forall>product quantity w'. add self product quantity w = Inr w' \<longrightarrow> saved w')
       \<and> (\<forall>product quantity r w'. update self product quantity w = Inr (r, w') \<longrightarrow> saved w')
       \<and> (\<forall>product w'. delete self product w = Inr w' \<longrightarrow> saved w')
       \<and> (\<forall>product n. \<exists>w'. add self product (QInt n) w = Inr w')
       \<and> (\<forall>product quantity. dict_contains (the_cart self w) (get_product_id product) \<longrightarrow>
             (\<exists>w'. add self product quantity w = Inr w' \<and> the_cart self w' = the_cart self w))
       \<and> (\<forall>product n. \<exists>r w'. update self product (QInt n) w = Inr (r, w'))
       \<and> (\<forall>product. \<exists>w'. delete self product w = Inr w')
       \<and> (\<forall>product. \<not> dict_contains (the_cart self w) (get_product_id product) \<longrightarrow>
             (\<exists>w'. delete self product w = Inr w' \<and> the_cart self w' = the_cart self w))"
proof (intro conjI allI impI)
  fix product quantity w'
  assume "add self product quantity w = Inr w'"
  then have "w' = save self (set_cart self (the_cart self w') w)"
    by (rule add_result)
  then show "saved w'"
    unfolding saved_def using save_post save_rows by blast
next
  fix product quantity r w'
  assume "update self product quantity w = Inr (r, w')"
  then have "w' = save self (set_cart self (the_cart self w') w)"
    by (rule update_result)
  then show "saved w'"
    unfolding saved_def using save_post save_rows by blast
next
  fix product w'
  assume "delete self product w = Inr w'"
  then have "w' = save self (set_cart self (the_cart self w') w)"
    by (rule delete_result)
  then show "saved w'"
    unfolding saved_def using save_post save_rows by blast
next
  fix product n
  show "\<exists>w'. add self product (QInt n) w = Inr w'"
    by (cases "dict_contains (the_cart self w) (get_product_id product)")
      (simp_all add: add_present add_new [where n = n])
next
  fix product quantity
  assume "dict_contains (the_cart self w) (get_product_id product)"
  then have "add self product quantity w = Inr (save self w)"
    by (rule add_present)
  then show "\<exists>w'. add self product quantity w = Inr w' \<and> the_cart self w' = the_cart self w"
    by (simp add: the_cart_save)
next
  fix product n
  show "\<exists>r w'. update self product (QInt n) w = Inr (r, w')"
    by (simp add: update_int [where n = n])
next
  fix product
  show "\<exists>w'. delete self product w = Inr w'"
    by (cases "dict_contains (the_cart self w) (get_product_id product)")
      (simp_all add: delete_present delete_absent)
next
  fix product
  assume "\<not> dict_contains (the_cart self w) (get_product_id product)"
  then have "delete self product w = Inr (save self w)"
    by (rule delete_absent)
  then show "\<exists>w'. delete self product w = Inr w' \<and> the_cart self w' = the_cart self w"
    by (simp add: the_cart_save)
qed

text \<open>
  User 7 holds \<open>{"old": 1}\<close> in the profile and \<open>{"p1": 3}\<close> in the session: the no-op
  \<open>add("p1", 7)\<close> sets the flag and replaces the profile's copy by \<open>{"p1": 3}\<close>, the key
  \<open>"old"\<close> is gone and the row of user 8 is as before; \<open>update("p1", 4)\<close> leaves
  \<open>{"p1": 4}\<close> in the session and in the row of user 7, and the no-op \<open>delete("p2")\<close>
  writes \<open>{"p1": 3}\<close> there. For an anonymous user
  \<open>delete("p1")\<close> sets the flag and leaves the table alone.
\<close>

theorem mutations_end_with_save_witness:
  "dict_contains (the_cart cart0 (world_with alice two_profiles (dict_of [(''p1'', 3)]))) (get_product_id p1)
   \<and> (\<exists>w'. add cart0 p1 (QInt 7) (world_with alice two_profiles (dict_of [(''p1'', 3)])) = Inr w'
         \<and> the_cart cart0 w' = dict_of [(''p1'', 3)]
         \<and> modified w'
         \<and> profiles w' =
             [\<lparr>user_id = 7, old_cart = dict_of [(''p1'', 3)]\<rparr>,
              \<lparr>user_id = 8, old_cart = dict_of [(''x'', 2)]\<rparr>])
   \<and> (\<exists>w'. delete cart0 p1 (world_with anonymous two_profiles (dict_of [(''p1'', 3)])) = Inr w'
         \<and> modified w' \<and> profiles w' = two_profiles)
   \<and> (\<exists>r w'. update cart0 p1 (QInt 4) (world_with alice two_profiles (dict_of [(''p1'', 3)])) = Inr (r, w')
         \<and> modified w'
         \<and> profiles w' = map (sync_profile 7 (the_cart cart0 w')) two_profiles
         \<and> the_cart cart0 w' = dict_of [(''p1'', 4)]
         \<and> length (profiles w') = 2
         \<and> profiles w' ! 0 = \<lparr>user_id = 7, old_cart = dict_of [(''p1'', 4)]\<rparr>
         \<and> profiles w' ! 1 = \<lparr>user_id = 8, old_cart = dict_of [(''x'', 2)]\<rparr>)
   \<and> \<not> dict_contains (the_cart cart0 (world_with alice two_profiles (dict_of [(''p1'', 3)])))
         (get_product_id (NoId (PStr ''p2'')))
   \<and> (\<exists>w'. delete cart0 (NoId (PStr ''p2'')) (world_with alice two_profiles (dict_of [(''p1'', 3)])) = Inr w'
         \<and> the_cart cart0 w' = dict_of [(''p1'', 3)]
         \<and> modified w'
         \<and> profiles w' =
             [\<lparr>user_id = 7, old_cart = dict_of [(''p1'', 3)]\<rparr>,
              \<lparr>user_id = 8, old_cart = dict_of [(''x'', 2)]\<rparr>])"
proof -
  let ?u = "world_with alice two_profiles (dict_of [(''p1'', 3)])"
  let ?v = "world_with anonymous two_profiles (dict_of [(''p1'', 3)])"
  have present: "dict_contains (the_cart cart0 ?u) (get_product_id p1)"
    by (simp add: world_defs)
  have d: "the_cart cart0 ?u = dict_of [(''p1'', 3)]"
    by (simp add: world_defs)
  have auth: "is_authenticated (user ?u)" "uid (user ?u) = 7" "profiles ?u = two_profiles"
    by (simp_all add: world_defs)
  have anon: "\<not> is_authenticated (user ?v)" "profiles ?v = two_profiles"
    by (simp_all add: world_defs)
  have rows: "map (sync_profile 7 (dict_of [(''p1'', 3)])) two_profiles =
      [\<lparr>user_id = 7, old_cart = dict_of [(''p1'', 3)]\<rparr>,
       \<lparr>user_id = 8, old_cart = dict_of [(''x'', 2)]\<rparr>]"
    by (simp add: two_profiles_def sync_profile_def)
  note noop = mutations_end_with_save [where self = cart0 and w = ?u,
      THEN conjunct2, THEN conjunct2, THEN conjunct2, THEN conjunct2, THEN conjunct1,
      rule_format, OF present, of "QInt 7"]
  note add_saved = mutations_end_with_save [where self = cart0 and w = ?u,
      THEN conjunct1, rule_format, of p1 "QInt 7"]
  note del_returns = mutations_end_with_save [where self = cart0 and w = ?v,
      THEN conjunct2, THEN conjunct2, THEN conjunct2, THEN conjunct2, THEN conjunct2,
      THEN conjunct2, THEN conjunct1, rule_format, of p1]
  note del_saved = mutations_end_with_save [where self = cart0 and w = ?v,
      THEN conjunct2, THEN conjunct2, THEN conjunct1, rule_format, of p1]
  from noop obtain w1 where w1: "add cart0 p1 (QInt 7) ?u = Inr w1"
      "the_cart cart0 w1 = dict_of [(''p1'', 3)]"
    unfolding d by blast
  from add_saved [OF w1(1)] have "modified w1 \<and> profiles w1 =
      (if is_authenticated (user ?u)
       then map (sync_profile (uid (user ?u)) (the_cart cart0 w1)) (profiles ?u)
       else profiles ?u)"
    by blast
  then have "modified w1"
      "profiles w1 = map (sync_profile 7 (dict_of [(''p1'', 3)])) two_profiles"
    by (simp_all add: auth w1(2))
  with w1 rows have first: "\<exists>w'. add cart0 p1 (QInt 7) ?u = Inr w'
         \<and> the_cart cart0 w' = dict_of [(''p1'', 3)]
         \<and> modified w'
         \<and> profiles w' =
             [\<lparr>user_id = 7, old_cart = dict_of [(''p1'', 3)]\<rparr>,
              \<lparr>user_id = 8, old_cart = dict_of [(''x'', 2)]\<rparr>]"
    by simp
  from del_returns obtain w2 where w2: "delete cart0 p1 ?v = Inr w2"
    by blast
  from del_saved [OF w2] have "modified w2 \<and> profiles w2 =
      (if is_authenticated (user ?v)
       then map (sync_profile (uid (user ?v)) (the_cart cart0 w2)) (profiles ?v)
       else profiles ?v)"
    by blast
  then have "modified w2" "profiles w2 = two_profiles"
    by (simp_all add: anon)
  with w2 have second: "\<exists>w'. delete cart0 p1 ?v = Inr w' \<and> modified w' \<and> profiles w' = two_profiles"
    by simp
  note upd_saved = mutations_end_with_save [where self = cart0 and w = ?u,
      THEN conjunct2, THEN conjunct1, rule_format, of p1 "QInt 4"]
  let ?x = "save cart0 (set_cart cart0 (dict_setitem (the_cart cart0 ?u) (get_product_id p1) 4) ?u)"
  have w3: "update cart0 p1 (QInt 4) ?u = Inr (cart cart0, ?x)"
    by (rule update_int) simp
  have d3: "the_cart cart0 ?x = dict_of [(''p1'', 4)]"
    by (simp add: the_cart_after_update) (simp add: world_defs)
  have two: "length (profiles ?u) = 2" "profiles ?u ! 0 = \<lparr>user_id = 7, old_cart = dict_of [(''old'', 1)]\<rparr>"
      "profiles ?u ! Suc 0 = \<lparr>user_id = 8, old_cart = dict_of [(''x'', 2)]\<rparr>"
    by (simp_all add: world_with_def two_profiles_def)
  from upd_saved [OF w3] have m3: "modified ?x"
    and p3: "profiles ?x =
      (if is_authenticated (user ?u)
       then map (sync_profile (uid (user ?u)) (the_cart cart0 ?x)) (profiles ?u)
       else profiles ?u)"
    and l3: "length (profiles ?x) = length (profiles ?u)"
    and r3: "\<forall>i<length (profiles ?u).
           profiles ?x ! i =
             (if is_authenticated (user ?u) \<and> user_id (profiles ?u ! i) = uid (user ?u)
              then (profiles ?u ! i)\<lparr>old_cart := the_cart cart0 ?x\<rparr>
              else profiles ?u ! i)"
    by blast+
  from p3 have q3: "profiles ?x = map (sync_profile 7 (the_cart cart0 ?x)) two_profiles"
    by (simp only: auth if_True)
  from l3 have n3: "length (profiles ?x) = 2"
    by (simp only: two)
  from r3 have "profiles ?x ! 0 =
      (if is_authenticated (user ?u) \<and> user_id (profiles ?u ! 0) = uid (user ?u)
       then (profiles ?u ! 0)\<lparr>old_cart := the_cart cart0 ?x\<rparr>
       else profiles ?u ! 0)"
    by (simp add: two(1))
  then have row0: "profiles ?x ! 0 = \<lparr>user_id = 7, old_cart = dict_of [(''p1'', 4)]\<rparr>"
    by (simp add: two auth(1,2) d3)
  from r3 have "profiles ?x ! 1 =
      (if is_authenticated (user ?u) \<and> user_id (profiles ?u ! 1) = uid (user ?u)
       then (profiles ?u ! 1)\<lparr>old_cart := the_cart cart0 ?x\<rparr>
       else profiles ?u ! 1)"
    by (simp add: two(1))
  then have row1: "profiles ?x ! 1 = \<lparr>user_id = 8, old_cart = dict_of [(''x'', 2)]\<rparr>"
    by (simp add: two auth(1,2) d3)
  from w3 m3 q3 d3 n3 row0 row1
  have third: "\<exists>r w'. update cart0 p1 (QInt 4) ?u = Inr (r, w')
         \<and> modified w'
         \<and> profiles w' = map (sync_profile 7 (the_cart cart0 w')) two_profiles
         \<and> the_cart cart0 w' = dict_of [(''p1'', 4)]
         \<and> length (profiles w') = 2
         \<and> profiles w' ! 0 = \<lparr>user_id = 7, old_cart = dict_of [(''p1'', 4)]\<rparr>
         \<and> profiles w' ! 1 = \<lparr>user_id = 8, old_cart = dict_of [(''x'', 2)]\<rparr>"
    by blast
  have absent: "\<not> dict_contains (the_cart cart0 ?u) (get_product_id (NoId (PStr ''p2'')))"
    by (simp add: world_defs)
  note del_noop = mutations_end_with_save [where self = cart0 and w = ?u,
      THEN conjunct2, THEN conjunct2, THEN conjunct2, THEN conjunct2, THEN conjunct2,
      THEN conjunct2, THEN conjunct2, rule_format, OF absent]
  note del_noop_saved = mutations_end_with_save [where self = cart0 and w = ?u,
      THEN conjunct2, THEN conjunct2, THEN conjunct1, rule_format, of "NoId (PStr ''p2'')"]
  from del_noop obtain w4 where w4: "delete cart0 (NoId (PStr ''p2'')) ?u = Inr w4"
      "the_cart cart0 w4 = dict_of [(''p1'', 3)]"
    unfolding d by blast
  from del_noop_saved [OF w4(1)] have "modified w4 \<and> profiles w4 =
      (if is_authenticated (user ?u)
       then map (sync_profile (uid (user ?u)) (the_cart cart0 w4)) (profiles ?u)
       else profiles ?u)"
    by blast
  then have "modified w4"
      "profiles w4 = map (sync_profile 7 (dict_of [(''p1'', 3)])) two_profiles"
    by (simp_all add: auth w4(2))
  with w4 rows have fourth: "\<exists>w'. delete cart0 (NoId (PStr ''p2'')) ?u = Inr w'
         \<and> the_cart cart0 w' = dict_of [(''p1'', 3)]
         \<and> modified w'
         \<and> profiles w' =
             [\<lparr>user_id = 7, old_cart = dict_of [(''p1'', 3)]\<rparr>,
              \<lparr>user_id = 8, old_cart = dict_of [(''x'', 2)]\<rparr>]"
    by simp
  from present first second third absent fourth show ?thesis
    by blast
qed

subsection \<open>Construction\<close>

lemma init_new:
  assumes "session w SESSION_KEY = None"
  shows "init w =
    (\<lparr>cart = allocated w\<rparr>,
     w\<lparr>heap := (heap w)(allocated w := DAList.empty), allocated := Suc (allocated w),
       session := (session w)(SESSION_KEY \<mapsto> allocated w), modified := True\<rparr>)"
  using assms by (simp add: init_def new_dict_def session_setitem_def)

lemma init_existing:
  assumes "session w SESSION_KEY = Some r"
  shows "init w = (\<lparr>cart = r\<rparr>, w)"
  using assms by (simp add: init_def)

lemma session_step:
  assumes "step self c w = Inr w'"
  shows "session w' = session w"
proof (cases c)
  case (Add product quantity)
  with assms have "add self product quantity w = Inr w'"
    by simp
  then have "w' = save self (set_cart self (the_cart self w') w)"
    by (rule add_result)
  then have "session w' = session (save self (set_cart self (the_cart self w') w))"
    by simp
  then show ?thesis
    by (simp add: session_save set_cart_fields)
next
  case (Update product quantity)
  with assms obtain r where "update self product quantity w = Inr (r, w')"
    by (auto split: sum.splits)
  then have "w' = save self (set_cart self (the_cart self w') w)"
    by (rule update_result)
  then have "session w' = session (save self (set_cart self (the_cart self w') w))"
    by simp
  then show ?thesis
    by (simp add: session_save set_cart_fields)
next
  case (Delete product)
  with assms have "delete self product w = Inr w'"
    by simp
  then have "w' = save self (set_cart self (the_cart self w') w)"
    by (rule delete_result)
  then have "session w' = session (save self (set_cart self (the_cart self w') w))"
    by simp
  then show ?thesis
    by (simp add: session_save set_cart_fields)
qed

lemma session_run: "run self cs w = Inr w' \<Longrightarrow> session w' = session w"
proof (induction cs arbitrary: w)
  case Nil
  then show ?case by simp
next
  case (Cons c cs)
  then obtain w1 where s: "step self c w = Inr w1" and r: "run self cs w1 = Inr w'"
    by (auto split: sum.splits)
  from Cons.IH [OF r] session_step [OF s] show ?case
    by simp
qed

text \<open>
  C8. If the session has no entry under \<open>"cart"\<close>, the constructor makes a new empty
  dictionary, stores the reference to it in the session under \<open>"cart"\<close> at once, and
  keeps the same reference in \<open>self.cart\<close>; no other object, no other session entry, and
  neither the user nor the profiles change. If the entry exists, \<open>self.cart\<close> is that
  reference and the world is unchanged. In both cases the session's entry is
  \<open>self.cart\<close> after construction, and it still is after any sequence of calls of the
  cart's methods.
\<close>

theorem init_binds_session_cart:
  "(session w SESSION_KEY = None \<longrightarrow>
      (\<exists>c w'. init w = (c, w')
         \<and> session w' SESSION_KEY = Some (cart c)
         \<and> the_cart c w' = DAList.empty
         \<and> len c w' = 0
         \<and> cart c = allocated w
         \<and> (\<forall>r. r \<noteq> cart c \<longrightarrow> heap w' r = heap w r)
         \<and> (\<forall>k. k \<noteq> SESSION_KEY \<longrightarrow> session w' k = session w k)
         \<and> user w' = user w \<and> profiles w' = profiles w))
   \<and> (\<forall>r. session w SESSION_KEY = Some r \<longrightarrow> init w = (\<lparr>cart = r\<rparr>, w))
   \<and> session (snd (init w)) SESSION_KEY = Some (cart (fst (init w)))
   \<and> (\<forall>cs w'. run (fst (init w)) cs (snd (init w)) = Inr w' \<longrightarrow>
         session w' SESSION_KEY = Some (cart (fst (init w))))"
proof -
  have new: "\<exists>c w'. init w = (c, w')
         \<and> session w' SESSION_KEY = Some (cart c)
         \<and> the_cart c w' = DAList.empty
         \<and> len c w' = 0
         \<and> cart c = allocated w
         \<and> (\<forall>r. r \<noteq> cart c \<longrightarrow> heap w' r = heap w r)
         \<and> (\<forall>k. k \<noteq> SESSION_KEY \<longrightarrow> session w' k = session w k)
         \<and> user w' = user w \<and> profiles w' = profiles w"
    if "session w SESSION_KEY = None"
    using init_new [OF that]
    by (simp add: the_cart_def len_def dict_len_def DAList.empty.rep_eq)
  have existing: "init w = (\<lparr>cart = r\<rparr>, w)" if "session w SESSION_KEY = Some r" for r
    using that by (rule init_existing)
  have bound: "session (snd (init w)) SESSION_KEY = Some (cart (fst (init w)))"
  proof (cases "session w SESSION_KEY")
    case None
    then show ?thesis
      by (simp add: init_new)
  next
    case (Some r)
    then show ?thesis
      by (simp add: init_existing)
  qed
  have stable: "session w' SESSION_KEY = Some (cart (fst (init w)))"
    if "run (fst (init w)) cs (snd (init w)) = Inr w'" for cs w'
    using session_run [OF that] bound by simp
  from new existing bound stable show ?thesis
    by blast
qed

text \<open>
  A session without entries gets the entry \<open>"cart"\<close> for the new object 0, which is
  empty; a session holding \<open>{"p1": 3}\<close> as object 0 is used as it is. After
  \<open>add("p1", 3)\<close> and \<open>update("p1", 4)\<close> the session's entry is still object 0, which now
  holds \<open>{"p1": 4}\<close>.
\<close>

theorem init_binds_session_cart_witness:
  "session (fresh_world anonymous []) SESSION_KEY = None
   \<and> init (fresh_world anonymous []) =
       (cart0, \<lparr>heap = (\<lambda>r. DAList.empty), allocated = 1, session = [''cart'' \<mapsto> 0],
                modified = True, user = anonymous, profiles = []\<rparr>)
   \<and> session (world_with alice two_profiles (dict_of [(''p1'', 3)])) SESSION_KEY = Some 0
   \<and> init (world_with alice two_profiles (dict_of [(''p1'', 3)])) =
       (cart0, world_with alice two_profiles (dict_of [(''p1'', 3)]))
   \<and> the_cart (fst (init (fresh_world anonymous []))) (snd (init (fresh_world anonymous []))) =
       DAList.empty
   \<and> session (snd (init (fresh_world anonymous []))) ''cart'' = Some 0
   \<and> (\<exists>w'. run (fst (init (fresh_world anonymous []))) [Add p1 (QInt 3), Update p1 (QInt 4)]
           (snd (init (fresh_world anonymous []))) = Inr w'
         \<and> session w' ''cart'' = Some 0
         \<and> heap w' 0 = dict_of [(''p1'', 4)])"
proof -
  let ?u = "fresh_world anonymous []"
  let ?v = "world_with alice two_profiles (dict_of [(''p1'', 3)])"
  have none: "session ?u SESSION_KEY = None"
    by (simp add: fresh_world_def)
  have some: "session ?v SESSION_KEY = Some 0"
    by (simp add: world_with_def)
  have i: "init ?u =
       (cart0, \<lparr>heap = (\<lambda>r. DAList.empty), allocated = 1, session = [''cart'' \<mapsto> 0],
                modified = True, user = anonymous, profiles = []\<rparr>)"
    by (simp add: world_defs fun_eq_iff)
  note thm1 = init_binds_session_cart [where w = ?u, THEN conjunct1, rule_format, OF none]
  note thm2 = init_binds_session_cart [where w = ?v, THEN conjunct2, THEN conjunct1,
      rule_format, OF some]
  note thm3 = init_binds_session_cart [where w = ?u, THEN conjunct2, THEN conjunct2,
      THEN conjunct1]
  from thm2 have j: "init ?v = (cart0, ?v)"
    by (simp add: cart0_def)
  from thm1 have e: "the_cart (fst (init ?u)) (snd (init ?u)) = DAList.empty"
    by auto
  from thm3 have b: "session (snd (init ?u)) ''cart'' = Some 0"
    by (simp add: i cart0_def SESSION_KEY_def)
  have "\<exists>w'. run (fst (init ?u)) [Add p1 (QInt 3), Update p1 (QInt 4)] (snd (init ?u)) = Inr w'
      \<and> heap w' 0 = dict_of [(''p1'', 4)]"
    unfolding i
    by (simp add: world_defs add_def update_def)
  then obtain w1 where r: "run (fst (init ?u)) [Add p1 (QInt 3), Update p1 (QInt 4)] (snd (init ?u)) = Inr w1"
    and h: "heap w1 0 = dict_of [(''p1'', 4)]"
    by blast
  note thm4 = init_binds_session_cart [where w = ?u, THEN conjunct2, THEN conjunct2,
      THEN conjunct2, rule_format, OF r]
  from thm4 have "session w1 ''cart'' = Some 0"
    by (simp add: i cart0_def SESSION_KEY_def)
  with r h have stable: "\<exists>w'. run (fst (init ?u)) [Add p1 (QInt 3), Update p1 (QInt 4)] (snd (init ?u)) = Inr w'
      \<and> session w' ''cart'' = Some 0
      \<and> heap w' 0 = dict_of [(''p1'', 4)]"
    by blast
  from none i some j e b stable show ?thesis
    by blast
qed

subsection \<open>Normalization of the product argument\<close>

lemma get_product_id_simps:
  "get_product_id (HasId v) = py_str v"
  "get_product_id (NoId v) = py_str v"
  by (simp_all add: get_product_id_def)

lemma add_cong_id:
  "get_product_id a = get_product_id b \<Longrightarrow> add self a q w = add self b q w"
  by (simp add: add_def)

lemma update_cong_id:
  "get_product_id a = get_product_id b \<Longrightarrow> update self a q w = update self b q w"
  by (simp add: update_def)

lemma delete_cong_id:
  "get_product_id a = get_product_id b \<Longrightarrow> delete self a w = delete self b w"
  by (simp add: delete_def)

lemma delete_setitem_new:
  assumes "\<not> dict_contains d k"
  shows "DAList.delete k (dict_setitem d k v) = d"
proof -
  from assms have "k \<notin> fst ` set (DAList.impl_of d)"
    by (simp add: dict_contains_def DAList.lookup.rep_eq map_of_eq_None_iff)
  then have "AList.delete k (AList.update k v (DAList.impl_of d)) = DAList.impl_of d"
    by (simp add: delete_update_same)
  then show ?thesis
    by (simp add: DAList.alist_eq_iff dict_setitem_def DAList.delete.rep_eq DAList.update.rep_eq)
qed

lemma contains_after_add:
  assumes "add self product quantity w = Inr w'"
  shows "dict_contains (the_cart self w') (get_product_id product)"
proof (cases "dict_contains (the_cart self w) (get_product_id product)")
  case True
  then have "add self product quantity w = Inr (save self w)"
    by (rule add_present)
  with assms have "w' = save self w"
    by simp
  with True show ?thesis
    by (simp add: the_cart_save)
next
  case False
  show ?thesis
  proof (cases "py_int quantity")
    case (Inl e)
    with False have "add self product quantity w = Inl e"
      by (rule add_new_raises)
    with assms show ?thesis
      by simp
  next
    case (Inr n)
    with False have "add self product quantity w =
        Inr (save self (set_cart self (dict_setitem (the_cart self w) (get_product_id product) n) w))"
      by (rule add_new)
    with assms have "w' =
        save self (set_cart self (dict_setitem (the_cart self w) (get_product_id product) n) w)"
      by simp
    then show ?thesis
      by (simp add: the_cart_after_update contains_setitem)
  qed
qed

lemma add_new_cart:
  assumes "add self product quantity w = Inr w'"
    and "\<not> dict_contains (the_cart self w) (get_product_id product)"
  shows "\<exists>n. the_cart self w' = dict_setitem (the_cart self w) (get_product_id product) n"
proof (cases "py_int quantity")
  case (Inl e)
  with assms(2) have "add self product quantity w = Inl e"
    by (rule add_new_raises)
  with assms(1) show ?thesis
    by simp
next
  case (Inr n)
  with assms(2) have "add self product quantity w =
      Inr (save self (set_cart self (dict_setitem (the_cart self w) (get_product_id product) n) w))"
    by (rule add_new)
  with assms(1) have "w' =
      save self (set_cart self (dict_setitem (the_cart self w) (get_product_id product) n) w)"
    by simp
  then have "the_cart self w' = dict_setitem (the_cart self w) (get_product_id product) n"
    by (simp add: the_cart_after_update)
  then show ?thesis ..
qed

text \<open>
  C9. \<open>add\<close>, \<open>update\<close> and \<open>delete\<close> see their product argument only through its
  normalized id: a call with an object whose attribute \<open>id\<close> is \<open>v\<close>, and a call with the
  bare identifier \<open>v\<close>, each do exactly what the call with the string \<open>str(v)\<close> does.
  Hence after \<open>add(x)\<close> has returned, \<open>delete(str(x.id))\<close> returns and the id is no longer
  a key; if it was not a key before the \<open>add\<close>, the mapping is back to what it was.
\<close>

theorem normalization_uniform:
  fixes self :: Cart and w :: world and v :: pyval and q :: quantity
  defines "s \<equiv> NoId (PStr (py_str v))"
  shows "add self (HasId v) q w = add self s q w
       \<and> update self (HasId v) q w = update self s q w
       \<and> delete self (HasId v) w = delete self s w
       \<and> add self (NoId v) q w = add self s q w
       \<and> update self (NoId v) q w = update self s q w
       \<and> delete self (NoId v) w = delete self s w
       \<and> (\<forall>w1. add self (HasId v) q w = Inr w1 \<longrightarrow>
             (\<exists>w2. delete self s w1 = Inr w2
                \<and> \<not> dict_contains (the_cart self w2) (py_str v)
                \<and> (\<not> dict_contains (the_cart self w) (py_str v) \<longrightarrow>
                      the_cart self w2 = the_cart self w)))"
proof -
  have ids: "get_product_id (HasId v) = get_product_id s" "get_product_id (NoId v) = get_product_id s"
    "get_product_id s = py_str v"
    by (simp_all add: s_def get_product_id_simps)
  have round: "\<exists>w2. delete self s w1 = Inr w2
      \<and> \<not> dict_contains (the_cart self w2) (py_str v)
      \<and> (\<not> dict_contains (the_cart self w) (py_str v) \<longrightarrow> the_cart self w2 = the_cart self w)"
    if a: "add self (HasId v) q w = Inr w1" for w1
  proof -
    let ?d = "DAList.delete (py_str v) (the_cart self w1)"
    let ?w2 = "save self (set_cart self ?d w1)"
    from a have "dict_contains (the_cart self w1) (get_product_id (HasId v))"
      by (rule contains_after_add)
    then have present: "dict_contains (the_cart self w1) (get_product_id s)"
      by (simp add: ids)
    then have del: "delete self s w1 = Inr ?w2"
      using delete_present [OF present] by (simp add: ids)
    have cart2: "the_cart self ?w2 = ?d"
      by (rule the_cart_after_update)
    have gone: "\<not> dict_contains (the_cart self ?w2) (py_str v)"
      by (simp add: cart2 dict_contains_def)
    have restored: "the_cart self ?w2 = the_cart self w"
      if new: "\<not> dict_contains (the_cart self w) (py_str v)"
    proof -
      from new have "\<not> dict_contains (the_cart self w) (get_product_id (HasId v))"
        by (simp add: get_product_id_simps)
      from add_new_cart [OF a this] obtain n
        where "the_cart self w1 = dict_setitem (the_cart self w) (py_str v) n"
        by (auto simp add: get_product_id_simps)
      with new show ?thesis
        by (simp add: the_cart_after_update delete_setitem_new)
    qed
    from del gone restored show ?thesis
      by blast
  qed
  from ids round show ?thesis
    by (simp add: add_cong_id update_cong_id delete_cong_id)
qed

text \<open>
  An object with \<open>id = 42\<close> is added under the key \<open>"42"\<close>, as the string \<open>"42"\<close> itself
  would be, and \<open>delete("42")\<close> removes it.
\<close>

theorem normalization_uniform_witness:
  "py_str (PInt 42) = ''42''
   \<and> add cart0 (HasId (PInt 42)) (QInt 1) (snd (init (fresh_world anonymous []))) =
       add cart0 (NoId (PStr ''42'')) (QInt 1) (snd (init (fresh_world anonymous [])))
   \<and> (\<exists>w1 w2. add cart0 (HasId (PInt 42)) (QInt 1) (snd (init (fresh_world anonymous []))) = Inr w1
         \<and> the_cart cart0 w1 = dict_of [(''42'', 1)]
         \<and> delete cart0 (NoId (PStr ''42'')) w1 = Inr w2
         \<and> the_cart cart0 w2 = DAList.empty)"
proof -
  let ?u = "snd (init (fresh_world anonymous []))"
  have str: "py_str (PInt 42) = ''42''"
    by (simp add: digit_char_def)
  have new: "\<not> dict_contains (the_cart cart0 ?u) (py_str (PInt 42))"
    unfolding str by (simp add: world_defs)
  have empty: "the_cart cart0 ?u = DAList.empty"
    by (simp add: world_defs)
  have a: "add cart0 (HasId (PInt 42)) (QInt 1) ?u =
      Inr (save cart0 (set_cart cart0 (dict_of [(''42'', 1)]) ?u))"
    by (simp add: world_defs add_def digit_char_def)
  note thm1 = normalization_uniform [where self = cart0 and w = ?u and v = "PInt 42"
      and q = "QInt 1", THEN conjunct1]
  note thm7 = normalization_uniform [where self = cart0 and w = ?u and v = "PInt 42"
      and q = "QInt 1", THEN conjunct2, THEN conjunct2, THEN conjunct2, THEN conjunct2,
      THEN conjunct2, THEN conjunct2, rule_format, OF a]
  from thm1 have same: "add cart0 (HasId (PInt 42)) (QInt 1) ?u = add cart0 (NoId (PStr ''42'')) (QInt 1) ?u"
    unfolding str .
  from thm7 new obtain w2
    where "delete cart0 (NoId (PStr ''42'')) (save cart0 (set_cart cart0 (dict_of [(''42'', 1)]) ?u)) = Inr w2"
      and "the_cart cart0 w2 = DAList.empty"
    unfolding str empty by blast
  with a have "\<exists>w1 w2. add cart0 (HasId (PInt 42)) (QInt 1) ?u = Inr w1
         \<and> the_cart cart0 w1 = dict_of [(''42'', 1)]
         \<and> delete cart0 (NoId (PStr ''42'')) w1 = Inr w2
         \<and> the_cart cart0 w2 = DAList.empty"
    by (simp add: the_cart_after_update)
  with str same show ?thesis
    by blast
qed

subsection \<open>The total price\<close>

lemma total_loop_sum:
  "total_loop d tot ps =
     tot + (\<Sum>x\<leftarrow>ps. (if getattr_is_sale x then sale_price x else price x)
                        * of_int (dict_get d (py_str (pid x)) 0))"
  by (induction ps arbitrary: tot) (simp_all add: Let_def add.assoc)

lemma get_products_filter:
  "get_products catalog self w =
     filter (\<lambda>x. dict_contains (the_cart self w) (py_str (pid x))) catalog"
  by (simp add: get_products_def id_in_def set_dict_keys)

lemma sum_filter_agree:
  fixes f g :: "'b \<Rightarrow> 'a::monoid_add"
  assumes "\<And>x. x \<in> set xs \<Longrightarrow> (if P x then f x else 0) = (if Q x then g x else 0)"
  shows "sum_list (map f (filter P xs)) = sum_list (map g (filter Q xs))"
  using assms
proof (induction xs)
  case Nil
  then show ?case by simp
next
  case (Cons x xs)
  have head: "(if P x then f x else 0) = (if Q x then g x else 0)"
    by (rule Cons.prems) simp
  have tail: "sum_list (map f (filter P xs)) = sum_list (map g (filter Q xs))"
    by (rule Cons.IH) (simp add: Cons.prems)
  have "sum_list (map f (filter P (x # xs))) =
      (if P x then f x else 0) + sum_list (map f (filter P xs))"
    by simp
  also have "\<dots> = (if Q x then g x else 0) + sum_list (map g (filter Q xs))"
    by (simp only: head tail)
  also have "\<dots> = sum_list (map g (filter Q (x # xs)))"
    by simp
  finally show ?case .
qed

lemma get_total_price_sum:
  "get_total_price catalog self w =
     (\<Sum>x\<leftarrow>get_products catalog self w.
        (if getattr_is_sale x then sale_price x else price x)
          * of_int (dict_get (the_cart self w) (py_str (pid x)) 0))"
  by (simp add: get_total_price_def total_loop_sum)

lemma dict_get_setitem:
  "dict_get (dict_setitem d k v) k' dflt = (if k' = k then v else dict_get d k' dflt)"
  by (simp add: dict_get_def lookup_setitem)

lemma total_unmatched_key:
  fixes catalog :: "'a::ring_1 Product list"
  assumes "\<forall>x\<in>set catalog. py_str (pid x) \<noteq> k"
  shows "get_total_price catalog self (set_cart self (dict_setitem (the_cart self w) k q) w) =
         get_total_price catalog self w"
  unfolding get_total_price_sum get_products_filter the_cart_set_cart
  by (rule sum_filter_agree) (use assms in \<open>auto simp add: contains_setitem dict_get_setitem\<close>)

text \<open>
  C3. \<open>get_total_price()\<close> is the sum, over the products that \<open>get_products()\<close> returns,
  of the quantity times the unit price, where the quantity is looked up under the string
  form of the product's id, 0 if that is no key, and the unit price is \<open>sale_price\<close> if
  \<open>is_sale\<close> holds and \<open>price\<close> otherwise. \<open>get_products()\<close> returns the catalog's products
  whose id is a key of the cart. A key that matches no product of the catalog
  contributes nothing: the total is the same whatever quantity is stored under it, and
  there is no error to raise. The cart \<open>{"p1": 2, "p2": 3, "p3": 1}\<close>, with p1 at 10 and
  not on sale, p2 at 20 and on sale at 15, and no p3 in the catalog, totals 65.
\<close>

theorem total_price_is_sum_over_matched:
  fixes catalog :: "'a::ring_1 Product list"
  shows "get_total_price catalog self w =
           (\<Sum>x\<leftarrow>get_products catalog self w.
              of_int (dict_get (the_cart self w) (py_str (pid x)) 0)
                * (if getattr_is_sale x then sale_price x else price x))
       \<and> get_products catalog self w =
           filter (\<lambda>x. dict_contains (the_cart self w) (py_str (pid x))) catalog
       \<and> (\<forall>k q. (\<forall>x\<in>set catalog. py_str (pid x) \<noteq> k) \<longrightarrow>
             get_total_price catalog self (set_cart self (dict_setitem (the_cart self w) k q) w) =
             get_total_price catalog self w)
       \<and> get_total_price shop cart0
             (world_with anonymous [] (dict_of [(''p1'', 2), (''p2'', 3), (''p3'', 1)])) = 65"
proof (intro conjI allI impI)
  show "get_total_price catalog self w =
      (\<Sum>x\<leftarrow>get_products catalog self w.
         of_int (dict_get (the_cart self w) (py_str (pid x)) 0)
           * (if getattr_is_sale x then sale_price x else price x))"
    by (simp only: get_total_price_sum mult_of_int_commute)
next
  show "get_products catalog self w =
      filter (\<lambda>x. dict_contains (the_cart self w) (py_str (pid x))) catalog"
    by (rule get_products_filter)
next
  fix k q
  assume "\<forall>x\<in>set catalog. py_str (pid x) \<noteq> k"
  then show "get_total_price catalog self (set_cart self (dict_setitem (the_cart self w) k q) w) =
      get_total_price catalog self w"
    by (rule total_unmatched_key)
next
  show "get_total_price shop cart0
      (world_with anonymous [] (dict_of [(''p1'', 2), (''p2'', 3), (''p3'', 1)])) = 65"
    by (simp add: get_total_price_def get_products_def id_in_def dict_keys_def dict_get_def
        getattr_is_sale_def shop_def world_defs DAList.update.rep_eq DAList.empty.rep_eq)
qed

text \<open>
  In the example no product has the id \<open>"p3"\<close>; both products of the catalog are
  returned, and the total is 65 with the key \<open>"p3"\<close> and without it.
\<close>

theorem total_price_is_sum_over_matched_witness:
  "list_all (\<lambda>x. py_str (pid x) \<noteq> ''p3'') shop
   \<and> get_products shop cart0 (world_with anonymous [] (dict_of [(''p1'', 2), (''p2'', 3), (''p3'', 1)])) = shop
   \<and> get_total_price shop cart0 (world_with anonymous [] (dict_of [(''p1'', 2), (''p2'', 3)])) = 65
   \<and> get_total_price shop cart0 (world_with anonymous [] (dict_of [(''p1'', 2), (''p2'', 3), (''p3'', 1)])) =
       2 * 10 + 3 * 15"
proof -
  let ?u = "world_with anonymous [] (dict_of [(''p1'', 2), (''p2'', 3)])"
  let ?v = "world_with anonymous [] (dict_of [(''p1'', 2), (''p2'', 3), (''p3'', 1)])"
  have unmatched: "\<forall>x\<in>set shop. py_str (pid x) \<noteq> ''p3''"
    by (simp add: shop_def)
  have v: "set_cart cart0 (dict_setitem (the_cart cart0 ?u) ''p3'' 1) ?u = ?v"
    by (simp add: world_defs fun_eq_iff)
  note thm1 = total_price_is_sum_over_matched [where catalog = shop and self = cart0 and w = ?v]
  from thm1 have "get_products shop cart0 ?v =
      filter (\<lambda>x. dict_contains (the_cart cart0 ?v) (py_str (pid x))) shop"
    by blast
  then have products: "get_products shop cart0 ?v = shop"
    by (simp add: shop_def world_defs)
  from thm1 have total: "get_total_price shop cart0 ?v = 65"
    by blast
  note thm3 = total_price_is_sum_over_matched [where catalog = shop and self = cart0 and w = ?u,
      THEN conjunct2, THEN conjunct2, THEN conjunct1]
  from thm3 unmatched
  have "get_total_price shop cart0 (set_cart cart0 (dict_setitem (the_cart cart0 ?u) ''p3'' 1) ?u) =
      get_total_price shop cart0 ?u"
    by blast
  with total have without: "get_total_price shop cart0 ?u = 65"
    unfolding v by simp
  from unmatched have "list_all (\<lambda>x. py_str (pid x) \<noteq> ''p3'') shop"
    by (simp add: list_all_iff)
  with products without total show ?thesis
    by simp
qed

subsection \<open>Quantity zero\<close>

lemma dict_len_card: "dict_len d = card {k. dict_contains d k}"
  by (simp add: dict_len_keys distinct_card distinct_dict_keys flip: set_dict_keys)

lemma contains_delete: "dict_contains (DAList.delete k d) k' = (k' \<noteq> k \<and> dict_contains d k')"
  by (simp add: dict_contains_def)

lemma dict_get_delete:
  "dict_get (DAList.delete k d) k' dflt = (if k' = k then dflt else dict_get d k' dflt)"
  by (simp add: dict_get_def)

lemma get_total_price_of_cart:
  "get_total_price catalog self w =
     (\<Sum>x\<leftarrow>filter (\<lambda>x. dict_contains (the_cart self w) (py_str (pid x))) catalog.
        (if getattr_is_sale x then sale_price x else price x)
          * of_int (dict_get (the_cart self w) (py_str (pid x)) 0))"
  by (simp only: get_total_price_sum get_products_filter)

lemma total_zero_like_deleted:
  fixes catalog :: "'a::ring_1 Product list"
  assumes "the_cart self w1 = dict_setitem d k 0" and "the_cart self w2 = DAList.delete k d"
  shows "get_total_price catalog self w1 = get_total_price catalog self w2"
  unfolding get_total_price_of_cart assms
  by (rule sum_filter_agree)
    (auto simp add: contains_setitem contains_delete dict_get_setitem dict_get_delete)

lemma the_cart_after_delete:
  assumes "delete self product w = Inr w'"
  shows "the_cart self w' = DAList.delete (get_product_id product) (the_cart self w)"
proof (cases "dict_contains (the_cart self w) (get_product_id product)")
  case True
  then have "delete self product w =
      Inr (save self (set_cart self (DAList.delete (get_product_id product) (the_cart self w)) w))"
    by (rule delete_present)
  with assms have "w' =
      save self (set_cart self (DAList.delete (get_product_id product) (the_cart self w)) w)"
    by simp
  then show ?thesis
    by (simp add: the_cart_after_update)
next
  case False
  then have "delete self product w = Inr (save self w)"
    by (rule delete_absent)
  with assms have "w' = save self w"
    by simp
  with False show ?thesis
    by (simp add: the_cart_save delete_absent_id)
qed

lemma delete_returns: "\<exists>w'. delete self product w = Inr w'"
  by (cases "dict_contains (the_cart self w) (get_product_id product)")
    (simp_all add: delete_present delete_absent)

lemma add_keeps_keys:
  assumes "add self product quantity w = Inr w'" and "dict_contains (the_cart self w) k"
  shows "dict_contains (the_cart self w') k"
proof (cases "dict_contains (the_cart self w) (get_product_id product)")
  case True
  then have "add self product quantity w = Inr (save self w)"
    by (rule add_present)
  with assms(1) have "w' = save self w"
    by simp
  with assms(2) show ?thesis
    by (simp add: the_cart_save)
next
  case False
  from add_new_cart [OF assms(1) False] assms(2) show ?thesis
    by (auto simp add: contains_setitem)
qed

lemma update_keeps_keys:
  assumes "update self product quantity w = Inr (r, w')" and "dict_contains (the_cart self w) k"
  shows "dict_contains (the_cart self w') k"
proof (cases "py_int quantity")
  case (Inl e)
  then have "update self product quantity w = Inl e"
    by (rule update_raises)
  with assms(1) show ?thesis
    by simp
next
  case (Inr n)
  then have "update self product quantity w =
      Inr (cart self,
           save self (set_cart self (dict_setitem (the_cart self w) (get_product_id product) n) w))"
    by (rule update_int)
  with assms(1) have "w' =
      save self (set_cart self (dict_setitem (the_cart self w) (get_product_id product) n) w)"
    by simp
  with assms(2) show ?thesis
    by (simp add: the_cart_after_update contains_setitem)
qed

text \<open>
  C10. Let \<open>p\<close> be the normalized id of the product. \<open>update(product, 0)\<close> returns and
  leaves \<open>p\<close> a key of the mapping, with quantity 0: the length counts \<open>p\<close> among the
  distinct ids, every product of the catalog with id \<open>p\<close> is among \<open>get_products()\<close>, and
  its term of the total is 0, so that the total is what it would be had the product been
  deleted instead. A \<open>delete\<close> afterwards removes the key and the length no longer counts
  it. Neither \<open>add\<close> nor \<open>update\<close> ever removes a key.
\<close>

theorem zero_quantity_keeps_key:
  fixes catalog :: "'a::ring_1 Product list" and self :: Cart and w :: world
    and product :: product_arg
  defines "p \<equiv> get_product_id product"
  shows "(\<exists>r w'. update self product (QInt 0) w = Inr (r, w')
            \<and> DAList.lookup (the_cart self w') p = Some 0
            \<and> dict_contains (the_cart self w') p
            \<and> len self w' = card (insert p {k. dict_contains (the_cart self w) k})
            \<and> (\<forall>x\<in>set catalog. py_str (pid x) = p \<longrightarrow>
                  x \<in> set (get_products catalog self w')
                  \<and> of_int (dict_get (the_cart self w') (py_str (pid x)) 0)
                      * (if getattr_is_sale x then sale_price x else price x) = 0)
            \<and> (\<exists>wd. delete self product w = Inr wd
                  \<and> get_total_price catalog self w' = get_total_price catalog self wd)
            \<and> (\<exists>wd. delete self product w' = Inr wd
                  \<and> \<not> dict_contains (the_cart self wd) p
                  \<and> len self wd = card ({k. dict_contains (the_cart self w) k} - {p})))
       \<and> (\<forall>a q w1 k. add self a q w = Inr w1 \<longrightarrow> dict_contains (the_cart self w) k \<longrightarrow>
             dict_contains (the_cart self w1) k)
       \<and> (\<forall>a q r w1 k. update self a q w = Inr (r, w1) \<longrightarrow> dict_contains (the_cart self w) k \<longrightarrow>
             dict_contains (the_cart self w1) k)"
proof (intro conjI allI impI)
  let ?d = "dict_setitem (the_cart self w) p 0"
  let ?w' = "save self (set_cart self ?d w)"
  have upd: "update self product (QInt 0) w = Inr (cart self, ?w')"
    unfolding p_def by (rule update_int) simp
  have cart': "the_cart self ?w' = ?d"
    by (rule the_cart_after_update)
  have look: "DAList.lookup (the_cart self ?w') p = Some 0"
    by (simp add: cart' lookup_setitem)
  have present: "dict_contains (the_cart self ?w') p"
    by (simp add: cart' contains_setitem)
  have "{k. dict_contains ?d k} = insert p {k. dict_contains (the_cart self w) k}"
    by (auto simp add: contains_setitem)
  then have length: "len self ?w' = card (insert p {k. dict_contains (the_cart self w) k})"
    by (simp add: len_def cart' dict_len_card)
  have listed: "x \<in> set (get_products catalog self ?w')
      \<and> of_int (dict_get (the_cart self ?w') (py_str (pid x)) 0)
          * (if getattr_is_sale x then sale_price x else price x) = 0"
    if "x \<in> set catalog" and "py_str (pid x) = p" for x
    using that by (simp add: get_products_filter cart' contains_setitem dict_get_setitem)
  obtain wd where wd: "delete self product w = Inr wd"
    using delete_returns by blast
  have "the_cart self wd = DAList.delete p (the_cart self w)"
    unfolding p_def using wd by (rule the_cart_after_delete)
  with cart' have "get_total_price catalog self ?w' = get_total_price catalog self wd"
    by (rule total_zero_like_deleted)
  with wd have same_total: "\<exists>wd. delete self product w = Inr wd
      \<and> get_total_price catalog self ?w' = get_total_price catalog self wd"
    by blast
  obtain we where we: "delete self product ?w' = Inr we"
    using delete_returns by blast
  have cart_e: "the_cart self we = DAList.delete p ?d"
    using the_cart_after_delete [OF we] by (simp add: the_cart_after_update p_def)
  have "{k. dict_contains (DAList.delete p ?d) k} = {k. dict_contains (the_cart self w) k} - {p}"
    by (auto simp add: contains_delete contains_setitem)
  then have "len self we = card ({k. dict_contains (the_cart self w) k} - {p})"
    by (simp add: len_def cart_e dict_len_card)
  with we cart_e have removed: "\<exists>wd. delete self product ?w' = Inr wd
      \<and> \<not> dict_contains (the_cart self wd) p
      \<and> len self wd = card ({k. dict_contains (the_cart self w) k} - {p})"
    by (simp add: contains_delete)
  from upd look present length listed same_total removed
  show "\<exists>r w'. update self product (QInt 0) w = Inr (r, w')
      \<and> DAList.lookup (the_cart self w') p = Some 0
      \<and> dict_contains (the_cart self w') p
      \<and> len self w' = card (insert p {k. dict_contains (the_cart self w) k})
      \<and> (\<forall>x\<in>set catalog. py_str (pid x) = p \<longrightarrow>
            x \<in> set (get_products catalog self w')
            \<and> of_int (dict_get (the_cart self w') (py_str (pid x)) 0)
                * (if getattr_is_sale x then sale_price x else price x) = 0)
      \<and> (\<exists>wd. delete self product w = Inr wd
            \<and> get_total_price catalog self w' = get_total_price catalog self wd)
      \<and> (\<exists>wd. delete self product w' = Inr wd
            \<and> \<not> dict_contains (the_cart self wd) p
            \<and> len self wd = card ({k. dict_contains (the_cart self w) k} - {p}))"
    by blast
next
  fix a q w1 k
  assume "add self a q w = Inr w1" and "dict_contains (the_cart self w) k"
  then show "dict_contains (the_cart self w1) k"
    by (rule add_keeps_keys)
next
  fix a q r w1 k
  assume "update self a q w = Inr (r, w1)" and "dict_contains (the_cart self w) k"
  then show "dict_contains (the_cart self w1) k"
    by (rule update_keeps_keys)
qed

text \<open>
  On \<open>{"p1": 2, "p2": 3}\<close>, \<open>update("p1", 0)\<close> leaves two keys, the product p1 is still
  returned, and the total is the 45 of p2 alone; \<open>add("p9", 1)\<close> keeps the key \<open>"p2"\<close>.
\<close>

theorem zero_quantity_keeps_key_witness:
  "dict_contains (the_cart cart0 (world_with anonymous [] (dict_of [(''p1'', 2), (''p2'', 3)]))) ''p2''
   \<and> (\<exists>r w'. update cart0 p1 (QInt 0) (world_with anonymous [] (dict_of [(''p1'', 2), (''p2'', 3)]))
           = Inr (r, w')
         \<and> DAList.lookup (the_cart cart0 w') ''p1'' = Some 0
         \<and> len cart0 w' = 2
         \<and> hd shop \<in> set (get_products shop cart0 w')
         \<and> get_total_price shop cart0 w' = 45
         \<and> dict_contains (the_cart cart0 w') ''p2'')
   \<and> (\<exists>w'. add cart0 (NoId (PStr ''p9'')) (QInt 1)
           (world_with anonymous [] (dict_of [(''p1'', 2), (''p2'', 3)])) = Inr w'
         \<and> dict_contains (the_cart cart0 w') ''p2'')"
proof -
  let ?u = "world_with anonymous [] (dict_of [(''p1'', 2), (''p2'', 3)])"
  let ?x = "save cart0 (set_cart cart0 (DAList.delete ''p1'' (the_cart cart0 ?u)) ?u)"
  have k: "get_product_id p1 = ''p1''"
    by (simp add: world_defs)
  have p2: "dict_contains (the_cart cart0 ?u) ''p2''"
    by (simp add: world_defs)
  have keys: "{k. dict_contains (the_cart cart0 ?u) k} = {''p1'', ''p2''}"
    unfolding set_dict_keys [symmetric]
    by (simp add: world_defs dict_keys_def DAList.update.rep_eq DAList.empty.rep_eq)
  have first: "hd shop \<in> set shop" "py_str (pid (hd shop)) = ''p1''"
    by (simp_all add: shop_def)
  have del: "delete cart0 p1 ?u = Inr ?x"
    using delete_present [of cart0 ?u p1] by (simp add: world_defs)
  have total_x: "get_total_price shop cart0 ?x = 45"
    by (simp add: get_total_price_def get_products_def id_in_def dict_keys_def dict_get_def
        getattr_is_sale_def shop_def world_defs DAList.update.rep_eq DAList.empty.rep_eq
        DAList.delete.rep_eq)
  note thm1 = zero_quantity_keeps_key [where catalog = shop and self = cart0 and w = ?u
      and product = p1, THEN conjunct1]
  note thm3 = zero_quantity_keeps_key [where catalog = shop and self = cart0 and w = ?u
      and product = p1, THEN conjunct2, THEN conjunct2]
  from thm1 obtain r w' where u: "update cart0 p1 (QInt 0) ?u = Inr (r, w')"
    and look: "DAList.lookup (the_cart cart0 w') (get_product_id p1) = Some 0"
    and length: "len cart0 w' = card (insert (get_product_id p1) {k. dict_contains (the_cart cart0 ?u) k})"
    and listed: "\<forall>x\<in>set shop. py_str (pid x) = get_product_id p1 \<longrightarrow>
        x \<in> set (get_products shop cart0 w')
        \<and> of_int (dict_get (the_cart cart0 w') (py_str (pid x)) 0)
            * (if getattr_is_sale x then sale_price x else price x) = 0"
    and total: "\<exists>wd. delete cart0 p1 ?u = Inr wd
        \<and> get_total_price shop cart0 w' = get_total_price shop cart0 wd"
    by blast
  from look have a: "DAList.lookup (the_cart cart0 w') ''p1'' = Some 0"
    by (simp add: k)
  from length have b: "len cart0 w' = 2"
    by (simp add: k keys)
  from listed first have c: "hd shop \<in> set (get_products shop cart0 w')"
    by (simp add: k)
  from total del total_x have d: "get_total_price shop cart0 w' = 45"
    by auto
  from thm3 u p2 have e: "dict_contains (the_cart cart0 w') ''p2''"
    by blast
  note thm2 = zero_quantity_keeps_key [where catalog = shop and self = cart0 and w = ?u
      and product = p1, THEN conjunct2, THEN conjunct1]
  have "\<exists>w'. add cart0 (NoId (PStr ''p9'')) (QInt 1) ?u = Inr w'"
    by (simp add: world_defs add_def)
  then obtain w9 where w9: "add cart0 (NoId (PStr ''p9'')) (QInt 1) ?u = Inr w9"
    by blast
  from thm2 w9 p2 have "dict_contains (the_cart cart0 w9) ''p2''"
    by blast
  with w9 have f: "\<exists>w'. add cart0 (NoId (PStr ''p9'')) (QInt 1) ?u = Inr w'
      \<and> dict_contains (the_cart cart0 w') ''p2''"
    by blast
  from p2 u a b c d e f show ?thesis
    by blast
qed

subsection \<open>The sign of the quantities\<close>

lemma nonneg_lookup: "nonneg d \<longleftrightarrow> (\<forall>k v. DAList.lookup d k = Some v \<longrightarrow> 0 \<le> v)"
proof -
  have "DAList.lookup d k = Some v \<longleftrightarrow> (k, v) \<in> set (DAList.impl_of d)" for k v
    by (simp add: DAList.lookup.rep_eq)
  then show ?thesis
    by (auto simp add: nonneg_def list_all_iff)
qed

lemma nonneg_setitem: "nonneg d \<Longrightarrow> 0 \<le> n \<Longrightarrow> nonneg (dict_setitem d k n)"
  by (simp add: nonneg_lookup lookup_setitem)

lemma nonneg_delete: "nonneg d \<Longrightarrow> nonneg (DAList.delete k d)"
  by (simp add: nonneg_lookup)

lemma nonneg_add:
  assumes "nonneg (the_cart self w)" and "nonneg_quantity quantity"
    and "add self product quantity w = Inr w'"
  shows "nonneg (the_cart self w')"
proof (cases "dict_contains (the_cart self w) (get_product_id product)")
  case True
  then have "add self product quantity w = Inr (save self w)"
    by (rule add_present)
  with assms(3) have "w' = save self w"
    by simp
  with assms(1) show ?thesis
    by (simp add: the_cart_save)
next
  case False
  show ?thesis
  proof (cases quantity)
    case (QInt n)
    then have "py_int quantity = Inr n"
      by simp
    with False have "add self product quantity w =
        Inr (save self (set_cart self (dict_setitem (the_cart self w) (get_product_id product) n) w))"
      by (rule add_new)
    with assms(3) have "w' =
        save self (set_cart self (dict_setitem (the_cart self w) (get_product_id product) n) w)"
      by simp
    moreover from assms(2) QInt have "0 \<le> n"
      by simp
    ultimately show ?thesis
      using assms(1) by (simp add: the_cart_after_update nonneg_setitem)
  next
    case (QBad e)
    then have "py_int quantity = Inl e"
      by simp
    with False have "add self product quantity w = Inl e"
      by (rule add_new_raises)
    with assms(3) show ?thesis
      by simp
  qed
qed

lemma nonneg_update:
  assumes "nonneg (the_cart self w)" and "nonneg_quantity quantity"
    and "update self product quantity w = Inr (r, w')"
  shows "nonneg (the_cart self w')"
proof (cases quantity)
  case (QInt n)
  then have "py_int quantity = Inr n"
    by simp
  then have "update self product quantity w =
      Inr (cart self,
           save self (set_cart self (dict_setitem (the_cart self w) (get_product_id product) n) w))"
    by (rule update_int)
  with assms(3) have "w' =
      save self (set_cart self (dict_setitem (the_cart self w) (get_product_id product) n) w)"
    by simp
  moreover from assms(2) QInt have "0 \<le> n"
    by simp
  ultimately show ?thesis
    using assms(1) by (simp add: the_cart_after_update nonneg_setitem)
next
  case (QBad e)
  then have "py_int quantity = Inl e"
    by simp
  then have "update self product quantity w = Inl e"
    by (rule update_raises)
  with assms(3) show ?thesis
    by simp
qed

lemma nonneg_delete_call:
  assumes "nonneg (the_cart self w)" and "delete self product w = Inr w'"
  shows "nonneg (the_cart self w')"
  using assms(1) the_cart_after_delete [OF assms(2)] by (simp add: nonneg_delete)

lemma nonneg_step:
  assumes "nonneg (the_cart self w)" and "nonneg_call c" and "step self c w = Inr w'"
  shows "nonneg (the_cart self w')"
proof (cases c)
  case (Add product quantity)
  with assms show ?thesis
    by (simp add: nonneg_add)
next
  case (Update product quantity)
  with assms(3) obtain r where "update self product quantity w = Inr (r, w')"
    by (auto split: sum.splits)
  with assms(1,2) Update show ?thesis
    by (simp add: nonneg_update)
next
  case (Delete product)
  with assms show ?thesis
    by (simp add: nonneg_delete_call)
qed

lemma nonneg_run:
  "nonneg (the_cart self w) \<Longrightarrow> list_all nonneg_call cs \<Longrightarrow> run self cs w = Inr w'
     \<Longrightarrow> nonneg (the_cart self w')"
proof (induction cs arbitrary: w)
  case Nil
  then show ?case by simp
next
  case (Cons c cs)
  from Cons.prems(3) obtain w1 where s: "step self c w = Inr w1" and r: "run self cs w1 = Inr w'"
    by (auto split: sum.splits)
  from Cons.prems(2) have c: "nonneg_call c" and cs: "list_all nonneg_call cs"
    by simp_all
  from Cons.prems(1) c s have "nonneg (the_cart self w1)"
    by (rule nonneg_step)
  from this cs r show ?case
    by (rule Cons.IH)
qed

lemma nonneg_init:
  assumes "session w SESSION_KEY = None"
  shows "nonneg (the_cart (fst (init w)) (snd (init w)))"
  using assms by (simp add: init_new the_cart_def nonneg_def DAList.empty.rep_eq)

text \<open>
  C7, as stated, fails: the quantities of a reachable cart need not be non-negative. The
  code stores \<open>int(quantity)\<close> whatever its sign. On a new session, whose cart is empty,
  \<open>update("p1", -1)\<close> returns and leaves the mapping \<open>{"p1": -1}\<close>.
\<close>

theorem negative_quantity_counterexample:
  "nonneg (the_cart cart0 (snd (init (fresh_world anonymous []))))
   \<and> update cart0 p1 (QInt (- 1)) (snd (init (fresh_world anonymous []))) =
       Inr (0, save cart0 (set_cart cart0 (dict_of [(''p1'', - 1)])
                 (snd (init (fresh_world anonymous [])))))
   \<and> the_cart cart0 (save cart0 (set_cart cart0 (dict_of [(''p1'', - 1)])
         (snd (init (fresh_world anonymous []))))) = dict_of [(''p1'', - 1)]
   \<and> DAList.lookup (dict_of [(''p1'', - 1)]) ''p1'' = Some (- 1)
   \<and> \<not> nonneg (dict_of [(''p1'', - 1)])"
proof -
  let ?u = "snd (init (fresh_world anonymous []))"
  have start: "nonneg (the_cart cart0 ?u)"
    by (simp add: world_defs nonneg_def DAList.empty.rep_eq)
  have d: "dict_setitem (the_cart cart0 ?u) (get_product_id p1) (- 1) = dict_of [(''p1'', - 1)]"
    by (simp add: world_defs)
  have "update cart0 p1 (QInt (- 1)) ?u =
      Inr (cart cart0,
           save cart0 (set_cart cart0 (dict_setitem (the_cart cart0 ?u) (get_product_id p1) (- 1)) ?u))"
    by (rule update_int) simp
  then have u: "update cart0 p1 (QInt (- 1)) ?u =
      Inr (0, save cart0 (set_cart cart0 (dict_of [(''p1'', - 1)]) ?u))"
    by (simp only: d) (simp add: cart0_def)
  have c: "the_cart cart0 (save cart0 (set_cart cart0 (dict_of [(''p1'', - 1)]) ?u)) =
      dict_of [(''p1'', - 1)]"
    by (rule the_cart_after_update)
  have l: "DAList.lookup (dict_of [(''p1'', - 1)]) ''p1'' = Some (- 1)"
    by (simp add: dict_of_def dict_setitem_def)
  have n: "\<not> nonneg (dict_of [(''p1'', - 1)])"
    by (simp add: dict_of_def dict_setitem_def nonneg_def DAList.update.rep_eq DAList.empty.rep_eq)
  from start u c l n show ?thesis
    by simp
qed

text \<open>
  C7, amended. Every stored quantity is an integer. If all quantities of the cart are
  non-negative, they still are after \<open>add\<close> or \<open>update\<close> with a quantity that \<open>int\<close> turns
  into a non-negative integer, after \<open>delete\<close>, and after any sequence of such calls; so in
  every state reached from a new session by calls with non-negative quantities, every
  quantity is non-negative.
\<close>

theorem nonneg_preserved_for_nonneg_arguments:
  "(nonneg (the_cart self w) \<longrightarrow>
      (\<forall>product quantity w'. nonneg_quantity quantity \<longrightarrow>
          add self product quantity w = Inr w' \<longrightarrow> nonneg (the_cart self w'))
      \<and> (\<forall>product quantity r w'. nonneg_quantity quantity \<longrightarrow>
          update self product quantity w = Inr (r, w') \<longrightarrow> nonneg (the_cart self w'))
      \<and> (\<forall>product w'. delete self product w = Inr w' \<longrightarrow> nonneg (the_cart self w'))
      \<and> (\<forall>cs w'. list_all nonneg_call cs \<longrightarrow> run self cs w = Inr w' \<longrightarrow>
            nonneg (the_cart self w')))
   \<and> (\<forall>w0 cs w'. session w0 SESSION_KEY = None \<longrightarrow> list_all nonneg_call cs \<longrightarrow>
         run (fst (init w0)) cs (snd (init w0)) = Inr w' \<longrightarrow>
         nonneg (the_cart (fst (init w0)) w'))"
proof (intro conjI allI impI)
  fix product quantity w'
  assume "nonneg (the_cart self w)" "nonneg_quantity quantity" "add self product quantity w = Inr w'"
  then show "nonneg (the_cart self w')"
    by (rule nonneg_add)
next
  fix product quantity r w'
  assume "nonneg (the_cart self w)" "nonneg_quantity quantity"
    "update self product quantity w = Inr (r, w')"
  then show "nonneg (the_cart self w')"
    by (rule nonneg_update)
next
  fix product w'
  assume "nonneg (the_cart self w)" "delete self product w = Inr w'"
  then show "nonneg (the_cart self w')"
    by (rule nonneg_delete_call)
next
  fix cs w'
  assume "nonneg (the_cart self w)" "list_all nonneg_call cs" "run self cs w = Inr w'"
  then show "nonneg (the_cart self w')"
    by (rule nonneg_run)
next
  fix w0 cs w'
  assume "session w0 SESSION_KEY = None" and cs: "list_all nonneg_call cs"
    and r: "run (fst (init w0)) cs (snd (init w0)) = Inr w'"
  then have "nonneg (the_cart (fst (init w0)) (snd (init w0)))"
    by (simp add: nonneg_init)
  from this cs r show "nonneg (the_cart (fst (init w0)) w')"
    by (rule nonneg_run)
qed

text \<open>
  From a new session, \<open>add("p1", 3)\<close>, \<open>add("p1", 7)\<close>, \<open>update("p1", 7)\<close> and
  \<open>delete("p2")\<close> lead to \<open>{"p1": 7}\<close>; on \<open>{"p1": 3}\<close>, \<open>update("p1", 0)\<close>,
  \<open>add("p2", 0)\<close>, \<open>delete("p1")\<close> and the first followed by the last each leave
  non-negative quantities.
\<close>

theorem nonneg_preserved_for_nonneg_arguments_witness:
  "session (fresh_world anonymous []) SESSION_KEY = None
   \<and> list_all nonneg_call [Add p1 (QInt 3), Add p1 (QInt 7), Update p1 (QInt 7), Delete (NoId (PStr ''p2''))]
   \<and> (\<exists>w'. run (fst (init (fresh_world anonymous [])))
           [Add p1 (QInt 3), Add p1 (QInt 7), Update p1 (QInt 7), Delete (NoId (PStr ''p2''))]
           (snd (init (fresh_world anonymous []))) = Inr w'
         \<and> the_cart cart0 w' = dict_of [(''p1'', 7)]
         \<and> nonneg (the_cart cart0 w'))
   \<and> nonneg (the_cart cart0 (world_with anonymous [] (dict_of [(''p1'', 3)])))
   \<and> nonneg_quantity (QInt 0)
   \<and> (\<exists>r w'. update cart0 p1 (QInt 0) (world_with anonymous [] (dict_of [(''p1'', 3)])) = Inr (r, w')
         \<and> nonneg (the_cart cart0 w'))
   \<and> (\<exists>w'. add cart0 (NoId (PStr ''p2'')) (QInt 0) (world_with anonymous [] (dict_of [(''p1'', 3)])) = Inr w'
         \<and> nonneg (the_cart cart0 w'))
   \<and> (\<exists>w'. delete cart0 p1 (world_with anonymous [] (dict_of [(''p1'', 3)])) = Inr w'
         \<and> nonneg (the_cart cart0 w'))
   \<and> list_all nonneg_call [Update p1 (QInt 0), Delete p1]
   \<and> (\<exists>w'. run cart0 [Update p1 (QInt 0), Delete p1]
           (world_with anonymous [] (dict_of [(''p1'', 3)])) = Inr w'
         \<and> nonneg (the_cart cart0 w'))"
proof -
  let ?u = "fresh_world anonymous []"
  let ?v = "world_with anonymous [] (dict_of [(''p1'', 3)])"
  let ?cs = "[Add p1 (QInt 3), Add p1 (QInt 7), Update p1 (QInt 7), Delete (NoId (PStr ''p2''))]"
  have none: "session ?u SESSION_KEY = None"
    by (simp add: fresh_world_def)
  have calls: "list_all nonneg_call ?cs"
    by simp
  have c: "fst (init ?u) = cart0"
    by (simp add: world_defs)
  have "\<exists>w'. run (fst (init ?u)) ?cs (snd (init ?u)) = Inr w' \<and> the_cart cart0 w' = dict_of [(''p1'', 7)]"
    by (simp add: world_defs add_def update_def delete_def DAList.alist_eq_iff
        DAList.update.rep_eq DAList.empty.rep_eq DAList.delete.rep_eq)
  then obtain w1 where r: "run (fst (init ?u)) ?cs (snd (init ?u)) = Inr w1"
    and d: "the_cart cart0 w1 = dict_of [(''p1'', 7)]"
    by blast
  note thm2 = nonneg_preserved_for_nonneg_arguments [where self = cart0 and w = ?v,
      THEN conjunct2, rule_format, OF none calls r]
  from thm2 have n1: "nonneg (the_cart cart0 w1)"
    by (simp add: c)
  have start: "nonneg (the_cart cart0 ?v)"
    by (simp add: world_defs nonneg_def DAList.update.rep_eq DAList.empty.rep_eq)
  have q: "nonneg_quantity (QInt 0)"
    by simp
  have "\<exists>r w'. update cart0 p1 (QInt 0) ?v = Inr (r, w')"
    by (simp add: update_def)
  then obtain r2 w2 where u: "update cart0 p1 (QInt 0) ?v = Inr (r2, w2)"
    by blast
  note thm1 = nonneg_preserved_for_nonneg_arguments [where self = cart0 and w = ?v,
      THEN conjunct1, rule_format, OF start, THEN conjunct2, THEN conjunct1, rule_format, OF q u]
  note on_start = nonneg_preserved_for_nonneg_arguments [where self = cart0 and w = ?v,
      THEN conjunct1, rule_format, OF start]
  have "\<exists>w'. add cart0 (NoId (PStr ''p2'')) (QInt 0) ?v = Inr w'"
    by (simp add: world_defs add_def)
  then obtain w3 where a: "add cart0 (NoId (PStr ''p2'')) (QInt 0) ?v = Inr w3"
    by blast
  note thm_add = on_start [THEN conjunct1, rule_format, OF q a]
  have "\<exists>w'. delete cart0 p1 ?v = Inr w'"
    by (rule delete_returns)
  then obtain w4 where e: "delete cart0 p1 ?v = Inr w4"
    by blast
  note thm_delete = on_start [THEN conjunct2, THEN conjunct2, THEN conjunct1, rule_format, OF e]
  have calls2: "list_all nonneg_call [Update p1 (QInt 0), Delete p1]"
    by simp
  have "\<exists>w'. run cart0 [Update p1 (QInt 0), Delete p1] ?v = Inr w'"
    by (simp add: world_defs update_def delete_def)
  then obtain w5 where r2: "run cart0 [Update p1 (QInt 0), Delete p1] ?v = Inr w5"
    by blast
  note thm_run = on_start [THEN conjunct2, THEN conjunct2, THEN conjunct2, rule_format,
      OF calls2 r2]
  from none calls r d n1 start q u thm1 a thm_add e thm_delete calls2 r2 thm_run show ?thesis
    by blast
qed

end
